theory Spec2Isabelle
  imports Main "HOL-Library.Word"
begin

text \<open>
  The booking client: the request layer \<open>services/api.ts\<close>, the hooks \<open>useBooking\<close>
  and \<open>useMagicLink\<close>, and the handlers of the components \<open>BookingForm\<close>,
  \<open>BookingDetails\<close> and \<open>PaymentInterface\<close>, as functions on explicit state.
  An asynchronous function is modelled by the value its promise settles to; a function
  that makes requests also returns the list of its \<open>fetch\<close> calls, in order.
\<close>

section \<open>JavaScript strings\<close>

text \<open>
  A JavaScript string is a sequence of 16-bit code units. Literals of the source are
  ASCII, written here through \<open>js\<close>.
\<close>

type_synonym jsstring = "16 word list"

definition js :: "string \<Rightarrow> jsstring" where
  "js s = map (\<lambda>c. of_nat (of_char c)) s"

text \<open>
  \<open>String.prototype.trim\<close> and the regular-expression class \<open>\s\<close> remove the
  same code units: ECMAScript's WhiteSpace and LineTerminator.
\<close>

definition isWhiteSpace :: "16 word \<Rightarrow> bool" where
  "isWhiteSpace c \<longleftrightarrow>
     c \<in> {0x0009, 0x000A, 0x000B, 0x000C, 0x000D, 0x0020, 0x00A0, 0x1680,
          0x2000, 0x2001, 0x2002, 0x2003, 0x2004, 0x2005, 0x2006, 0x2007,
          0x2008, 0x2009, 0x200A, 0x2028, 0x2029, 0x202F, 0x205F, 0x3000, 0xFEFF}"

definition trim :: "jsstring \<Rightarrow> jsstring" where
  "trim s = rev (dropWhile isWhiteSpace (rev (dropWhile isWhiteSpace s)))"

text \<open>The regular-expression classes \<open>\d\<close> and \<open>[0-9]\<close>: the code units of 0 to 9.\<close>

definition isDigit :: "16 word \<Rightarrow> bool" where
  "isDigit c \<longleftrightarrow> 0x30 \<le> c \<and> c \<le> 0x39"

text \<open>\<open>Array.prototype.join\<close> of strings with a one-unit separator.\<close>

fun join :: "16 word \<Rightarrow> jsstring list \<Rightarrow> jsstring" where
  "join sep [] = []"
| "join sep [p] = p"
| "join sep (p # q # ps) = p @ sep # join sep (q # ps)"

text \<open>The decimal digits of a natural number, as the template literal prints a status code.\<close>

fun show_nat :: "nat \<Rightarrow> string" where
  "show_nat n =
     (if n < 10 then [''0123456789'' ! n]
      else show_nat (n div 10) @ [''0123456789'' ! (n mod 10)])"

text \<open>
  \<open>x || d\<close> for an optional string \<open>x\<close>: \<open>undefined\<close> and the empty string are
  falsy, every other string is truthy.
\<close>

definition or_else :: "jsstring option \<Rightarrow> jsstring \<Rightarrow> jsstring" where
  "or_else x d = (case x of None \<Rightarrow> d | Some m \<Rightarrow> if m = [] then d else m)"

text \<open>
  A thrown value: an \<open>Error\<close> object with its message, or a value that is not an
  instance of \<open>Error\<close>.
\<close>

datatype js_thrown = JsError jsstring | JsOther

text \<open>
  A value of type \<open>any\<close>: a parsed JSON value. A number is kept by what the client
  can observe of it: whether it is zero, and the string it converts to. An object is the
  list of its own entries, one for each key.
\<close>

datatype any = JNull | JBool bool | JNum bool jsstring | JStr jsstring
  | JArr "any list" | JObj "(jsstring \<times> any) list"

section \<open>types/booking.ts\<close>

text \<open>
  Interfaces are records. A field carries a short prefix of its interface
  (\<open>f_userName\<close> of \<open>BookingFormData\<close>, \<open>bd_status\<close> of \<open>BookingDetails\<close>,
  \<open>r_error\<close> of \<open>ApiResponse\<close>), since several interfaces share field names.
  An optional field is an \<open>option\<close>; a \<open>number\<close> field is an \<open>int\<close>.
\<close>

datatype AppointmentType = CONSULTATION | TUTORIAL | ASSESSMENT | GROUP_SESSION | WORKSHOP

datatype BookingStatus = pending_confirmation | confirmed | completed | cancelled

datatype PaymentStatus =
  PS_pending | PS_processing | PS_completed | PS_failed | PS_refunded

text \<open>The string literal each member of the union types stands for.\<close>

fun AppointmentType_literal :: "AppointmentType \<Rightarrow> string" where
  "AppointmentType_literal CONSULTATION = ''CONSULTATION''"
| "AppointmentType_literal TUTORIAL = ''TUTORIAL''"
| "AppointmentType_literal ASSESSMENT = ''ASSESSMENT''"
| "AppointmentType_literal GROUP_SESSION = ''GROUP_SESSION''"
| "AppointmentType_literal WORKSHOP = ''WORKSHOP''"

fun BookingStatus_literal :: "BookingStatus \<Rightarrow> string" where
  "BookingStatus_literal pending_confirmation = ''pending_confirmation''"
| "BookingStatus_literal confirmed = ''confirmed''"
| "BookingStatus_literal completed = ''completed''"
| "BookingStatus_literal cancelled = ''cancelled''"

fun PaymentStatus_literal :: "PaymentStatus \<Rightarrow> string" where
  "PaymentStatus_literal PS_pending = ''pending''"
| "PaymentStatus_literal PS_processing = ''processing''"
| "PaymentStatus_literal PS_completed = ''completed''"
| "PaymentStatus_literal PS_failed = ''failed''"
| "PaymentStatus_literal PS_refunded = ''refunded''"

record FormBookingDetails =
  fd_subject :: "jsstring option"
  fd_level :: "jsstring option"
  fd_duration :: "int option"
  fd_notes :: "jsstring option"

text \<open>
  \<open>BookingFormData\<close>. The type annotation \<open>AppointmentType\<close> is erased when the
  program runs and the form writes \<open>e.target.value as AppointmentType\<close> unchecked, so
  the field holds a string.
\<close>

record BookingFormData =
  f_userName :: jsstring
  f_userPhone :: jsstring
  f_appointmentType :: jsstring
  f_appointmentDate :: jsstring
  f_bookingDetails :: FormBookingDetails

section \<open>services/api.ts\<close>

definition magicLinkBaseUrl :: jsstring where
  "magicLinkBaseUrl = js ''https://tbook-v1.vercel.app''"

definition apiBaseUrl :: jsstring where
  "apiBaseUrl = js ''https://tbook-v1.vercel.app''"

record 'a ApiResponse =
  r_success :: bool
  r_data :: "'a option"
  r_error :: "jsstring option"
  r_message :: "jsstring option"

record BookingResponse =
  br_bookingId :: jsstring
  br_uuid :: jsstring
  br_magicLink :: jsstring
  br_status :: jsstring
  br_message :: jsstring

record BookingDetails =
  bd_id :: jsstring
  bd_bookingId :: jsstring
  bd_magicLinkId :: jsstring
  bd_userName :: jsstring
  bd_userPhone :: jsstring
  bd_appointmentType :: jsstring
  bd_appointmentDate :: jsstring
  bd_bookingDetails :: any
  bd_status :: jsstring
  bd_paymentStatus :: jsstring
  bd_paymentId :: "jsstring option"
  bd_paymentAmount :: "int option"
  bd_paymentCurrency :: "jsstring option"
  bd_createdAt :: jsstring
  bd_confirmedAt :: "jsstring option"
  bd_paymentUpdatedAt :: "jsstring option"
  bd_lastAccessedAt :: "jsstring option"
  bd_accessCount :: int

text \<open>
  The \<open>paymentStatus\<close> of a \<open>PaymentUpdateRequest\<close> is its own union of four
  literals.
\<close>

datatype PaymentUpdateStatus = PU_pending | PU_completed | PU_failed | PU_refunded

fun PaymentUpdateStatus_literal :: "PaymentUpdateStatus \<Rightarrow> string" where
  "PaymentUpdateStatus_literal PU_pending = ''pending''"
| "PaymentUpdateStatus_literal PU_completed = ''completed''"
| "PaymentUpdateStatus_literal PU_failed = ''failed''"
| "PaymentUpdateStatus_literal PU_refunded = ''refunded''"

record PaymentUpdateRequest =
  pu_paymentStatus :: PaymentUpdateStatus
  pu_paymentId :: "jsstring option"
  pu_amount :: "int option"
  pu_currency :: "jsstring option"

record MagicLinkPreview =
  mp_bookingId :: jsstring
  mp_redirectUrl :: jsstring
  mp_status :: jsstring
  mp_bookingDetails :: BookingDetails

record AnalyticsEvent =
  ev_event :: jsstring
  ev_userAgent :: "jsstring option"
  ev_ipAddress :: "jsstring option"
  ev_metadata :: "any option"

text \<open>
  The argument of \<open>JSON.stringify\<close> in a request body: the value is kept, its
  serialisation is not modelled.
\<close>

datatype payload =
  BookingBody BookingFormData
| PaymentBody PaymentUpdateRequest
| EventBody AnalyticsEvent

text \<open>The fields of \<open>RequestInit\<close> the service sets; an absent field is \<open>None\<close>.\<close>

record RequestInit =
  ri_method :: "jsstring option"
  ri_body :: "payload option"
  ri_headers :: "(jsstring \<times> jsstring) list option"

definition no_options :: RequestInit where
  "no_options = \<lparr>ri_method = None, ri_body = None, ri_headers = None\<rparr>"

text \<open>One call of \<open>fetch\<close>: the URL and the init object.\<close>

record fetch_call =
  fc_url :: jsstring
  fc_init :: RequestInit

text \<open>
  The init object \<open>{headers: {'Content-Type': 'application/json', ...options.headers},
  ...options}\<close>: the spread of \<open>options\<close> comes last, so a \<open>headers\<close> field of the
  options replaces the merged one.
\<close>

definition request_init :: "RequestInit \<Rightarrow> RequestInit" where
  "request_init options =
     options\<lparr>ri_headers :=
       (case ri_headers options of
          None \<Rightarrow> Some [(js ''Content-Type'', js ''application/json'')]
        | Some h \<Rightarrow> Some h)\<rparr>"

definition request_call :: "jsstring \<Rightarrow> RequestInit \<Rightarrow> fetch_call" where
  "request_call endpoint options =
     \<lparr>fc_url = apiBaseUrl @ endpoint, fc_init = request_init options\<rparr>"

subsection \<open>The request as it runs\<close>

text \<open>
  What the platform answers. \<open>fetch\<close> rejects with a thrown value or resolves to a
  response; \<open>response.json()\<close> rejects with a thrown value or resolves to the parsed
  body, which is any JSON value: the service does not check it.
\<close>

record Response =
  rw_ok :: bool
  rw_status :: nat
  rw_json :: "js_thrown + any"

datatype fetch_outcome = Rejects js_thrown | Resolves Response

type_synonym platform_fetch = "fetch_call \<Rightarrow> fetch_outcome"

text \<open>
  The messages of the two \<open>TypeError\<close>s the engine can raise inside \<open>request\<close>: on
  reading a property of \<open>null\<close>, and on converting to a string an object that has no
  primitive value. Their wording is the engine's own.
\<close>

record engine =
  en_null_read :: jsstring
  en_no_primitive :: jsstring

text \<open>\<open>error instanceof Error ? error.message : 'Unknown error occurred'\<close>\<close>

definition thrown_message :: "js_thrown \<Rightarrow> jsstring" where
  "thrown_message e = (case e of JsError m \<Rightarrow> m | JsOther \<Rightarrow> js ''Unknown error occurred'')"

text \<open>The object the \<open>catch\<close> block of \<open>ApiService.request\<close> returns.\<close>

definition catch_object :: "js_thrown \<Rightarrow> any" where
  "catch_object e =
     JObj [(js ''success'', JBool False), (js ''error'', JStr (thrown_message e))]"

text \<open>
  \<open>data.error\<close> on a parsed body: \<open>null\<close> has no properties and the read throws; an
  object gives its own entry, if any; a boolean, number, string or array has no such
  property. \<open>None\<close> is \<open>undefined\<close>.
\<close>

fun data_error :: "engine \<Rightarrow> any \<Rightarrow> js_thrown + any option" where
  "data_error en JNull = Inl (JsError (en_null_read en))"
| "data_error en (JObj entries) = Inr (map_of entries (js ''error''))"
| "data_error en _ = Inr None"

text \<open>The truthy JSON values: all but \<open>null\<close>, \<open>false\<close>, zero and the empty string.\<close>

fun is_truthy :: "any \<Rightarrow> bool" where
  "is_truthy JNull = False"
| "is_truthy (JBool b) = b"
| "is_truthy (JNum zero text) = (\<not> zero)"
| "is_truthy (JStr s) = (s \<noteq> [])"
| "is_truthy (JArr xs) = True"
| "is_truthy (JObj entries) = True"

text \<open>
  The conversion to a string that \<open>new Error(message)\<close> applies to its argument. An
  array is the join of its elements with commas, \<open>null\<close> elements giving the empty
  string. An object is \<open>[object Object]\<close>, unless it has an entry \<open>toString\<close> of its
  own: a JSON value is not callable, \<open>valueOf\<close> then yields no primitive either, and
  the conversion throws.
\<close>

fun to_string :: "engine \<Rightarrow> any \<Rightarrow> js_thrown + jsstring"
  and join_elements :: "engine \<Rightarrow> any list \<Rightarrow> js_thrown + jsstring list" where
  "to_string en JNull = Inr (js ''null'')"
| "to_string en (JBool b) = Inr (if b then js ''true'' else js ''false'')"
| "to_string en (JNum zero text) = Inr text"
| "to_string en (JStr s) = Inr s"
| "to_string en (JArr xs) =
     (case join_elements en xs of Inl e \<Rightarrow> Inl e | Inr ps \<Rightarrow> Inr (join 0x2C ps))"
| "to_string en (JObj entries) =
     (if map_of entries (js ''toString'') \<noteq> None then Inl (JsError (en_no_primitive en))
      else Inr (js ''[object Object]''))"
| "join_elements en [] = Inr []"
| "join_elements en (JNull # xs) =
     (case join_elements en xs of Inl e \<Rightarrow> Inl e | Inr ps \<Rightarrow> Inr ([] # ps))"
| "join_elements en (x # xs) =
     (case to_string en x of
        Inl e \<Rightarrow> Inl e
      | Inr p \<Rightarrow> (case join_elements en xs of Inl e \<Rightarrow> Inl e | Inr ps \<Rightarrow> Inr (p # ps)))"

text \<open>
  What \<open>throw new Error(data.error || `HTTP error! status: ${response.status}`)\<close>
  throws: the \<open>Error\<close> with the converted message, or the \<open>TypeError\<close> raised while
  the argument is evaluated.
\<close>

definition not_ok_thrown :: "engine \<Rightarrow> any \<Rightarrow> nat \<Rightarrow> js_thrown" where
  "not_ok_thrown en data status =
     (case data_error en data of
        Inl e \<Rightarrow> e
      | Inr None \<Rightarrow> JsError (js (''HTTP error! status: '' @ show_nat status))
      | Inr (Some x) \<Rightarrow>
          if is_truthy x then
            (case to_string en x of Inl e \<Rightarrow> e | Inr m \<Rightarrow> JsError m)
          else JsError (js (''HTTP error! status: '' @ show_nat status)))"

text \<open>
  \<open>ApiService.request\<close>. The result is the list of \<open>fetch\<close> calls made and the value
  the promise resolves to; the function has no path on which the promise rejects.
\<close>

definition ApiService_request ::
  "engine \<Rightarrow> platform_fetch \<Rightarrow> jsstring \<Rightarrow> RequestInit \<Rightarrow> fetch_call list \<times> any" where
  "ApiService_request en fetch endpoint options =
     (let call = request_call endpoint options in
      ([call],
       (case fetch call of
          Rejects e \<Rightarrow> catch_object e
        | Resolves response \<Rightarrow>
            (case rw_json response of
               Inl e \<Rightarrow> catch_object e
             | Inr data \<Rightarrow>
                 if \<not> rw_ok response then
                   catch_object (not_ok_thrown en data (rw_status response))
                 else data))))"

text \<open>
  The interface \<open>ApiResponse\<close> as a test on a value: an object whose \<open>success\<close> is a
  boolean and whose \<open>error\<close> and \<open>message\<close>, where present, are strings.
\<close>

fun is_ApiResponse :: "any \<Rightarrow> bool" where
  "is_ApiResponse (JObj entries) =
     ((case map_of entries (js ''success'') of Some (JBool b) \<Rightarrow> True | _ \<Rightarrow> False) \<and>
      (case map_of entries (js ''error'') of None \<Rightarrow> True | Some (JStr s) \<Rightarrow> True
         | _ \<Rightarrow> False) \<and>
      (case map_of entries (js ''message'') of None \<Rightarrow> True | Some (JStr s) \<Rightarrow> True
         | _ \<Rightarrow> False))"
| "is_ApiResponse _ = False"

subsection \<open>The request at its declared type\<close>

text \<open>
  The methods of the service declare \<open>Promise<ApiResponse<T>>\<close> and the hooks read the
  response through the fields of that interface. For them the request is taken on the
  responses whose body is an \<open>ApiResponse<T>\<close>: \<open>request_as_declared\<close> is
  \<open>ApiService.request\<close> on such bodies, as lemma \<open>request_as_declared_refines\<close> shows.
\<close>

record 'a TypedResponse =
  rs_ok :: bool
  rs_status :: nat
  rs_json :: "js_thrown + 'a ApiResponse"

datatype 'a fetch_result = Rejected js_thrown | Resolved "'a TypedResponse"

type_synonym 'a fetch = "fetch_call \<Rightarrow> 'a fetch_result"

text \<open>The \<open>catch\<close> block of \<open>ApiService.request\<close>, as an \<open>ApiResponse\<close>.\<close>

definition request_catch :: "js_thrown \<Rightarrow> 'a ApiResponse" where
  "request_catch e =
     \<lparr>r_success = False, r_data = None,
      r_error = Some (case e of JsError m \<Rightarrow> m | JsOther \<Rightarrow> js ''Unknown error occurred''),
      r_message = None\<rparr>"

definition request_as_declared ::
  "'a fetch \<Rightarrow> jsstring \<Rightarrow> RequestInit \<Rightarrow> fetch_call list \<times> 'a ApiResponse" where
  "request_as_declared fetch endpoint options =
     (let call = request_call endpoint options in
      ([call],
       (case fetch call of
          Rejected e \<Rightarrow> request_catch e
        | Resolved response \<Rightarrow>
            (case rs_json response of
               Inl e \<Rightarrow> request_catch e
             | Inr data \<Rightarrow>
                 if \<not> rs_ok response then
                   request_catch
                     (JsError (or_else (r_error data)
                        (js (''HTTP error! status: '' @ show_nat (rs_status response)))))
                 else data))))"

text \<open>
  An \<open>ApiResponse<T>\<close> as the JSON value it is, given the JSON value of its data; and
  a typed answer of the platform as the answer it is.
\<close>

definition encode_ApiResponse :: "('a \<Rightarrow> any) \<Rightarrow> 'a ApiResponse \<Rightarrow> any" where
  "encode_ApiResponse enc r =
     JObj ([(js ''success'', JBool (r_success r))] @
           (case r_data r of None \<Rightarrow> [] | Some d \<Rightarrow> [(js ''data'', enc d)]) @
           (case r_error r of None \<Rightarrow> [] | Some m \<Rightarrow> [(js ''error'', JStr m)]) @
           (case r_message r of None \<Rightarrow> [] | Some m \<Rightarrow> [(js ''message'', JStr m)]))"

definition encode_result :: "('a \<Rightarrow> any) \<Rightarrow> 'a fetch_result \<Rightarrow> fetch_outcome" where
  "encode_result enc answer =
     (case answer of
        Rejected e \<Rightarrow> Rejects e
      | Resolved response \<Rightarrow>
          Resolves \<lparr>rw_ok = rs_ok response, rw_status = rs_status response,
            rw_json = (case rs_json response of
                         Inl e \<Rightarrow> Inl e
                       | Inr data \<Rightarrow> Inr (encode_ApiResponse enc data))\<rparr>)"

definition apiService_createBooking ::
  "BookingResponse fetch \<Rightarrow> BookingFormData \<Rightarrow> fetch_call list \<times> BookingResponse ApiResponse" where
  "apiService_createBooking fetch bookingData =
     request_as_declared fetch (js ''/api/booking/create'')
       \<lparr>ri_method = Some (js ''POST''), ri_body = Some (BookingBody bookingData), ri_headers = None\<rparr>"

definition apiService_confirmBooking :: "any fetch \<Rightarrow> jsstring \<Rightarrow> fetch_call list \<times> any ApiResponse" where
  "apiService_confirmBooking fetch uuid =
     request_as_declared fetch (js ''/api/booking/confirm/'' @ uuid)
       \<lparr>ri_method = Some (js ''POST''), ri_body = None, ri_headers = None\<rparr>"

definition apiService_updatePaymentStatus ::
  "any fetch \<Rightarrow> jsstring \<Rightarrow> PaymentUpdateRequest \<Rightarrow> fetch_call list \<times> any ApiResponse" where
  "apiService_updatePaymentStatus fetch uuid paymentData =
     request_as_declared fetch (js ''/api/booking/payment/'' @ uuid)
       \<lparr>ri_method = Some (js ''PUT''), ri_body = Some (PaymentBody paymentData), ri_headers = None\<rparr>"

definition apiService_getBookingDetails ::
  "BookingDetails fetch \<Rightarrow> jsstring \<Rightarrow> fetch_call list \<times> BookingDetails ApiResponse" where
  "apiService_getBookingDetails fetch uuid =
     request_as_declared fetch (js ''/api/booking/'' @ uuid) no_options"

definition apiService_previewMagicLink ::
  "MagicLinkPreview fetch \<Rightarrow> jsstring \<Rightarrow> fetch_call list \<times> MagicLinkPreview ApiResponse" where
  "apiService_previewMagicLink fetch magicLinkId =
     request_as_declared fetch (js ''/appt/'' @ magicLinkId @ js ''/preview'') no_options"

definition apiService_trackMagicLinkEvent ::
  "any fetch \<Rightarrow> jsstring \<Rightarrow> AnalyticsEvent \<Rightarrow> fetch_call list \<times> any ApiResponse" where
  "apiService_trackMagicLinkEvent fetch magicLinkId eventData =
     request_as_declared fetch (js ''/appt/'' @ magicLinkId @ js ''/track'')
       \<lparr>ri_method = Some (js ''POST''), ri_body = Some (EventBody eventData), ri_headers = None\<rparr>"

definition apiService_getMagicLinkAnalytics :: "any fetch \<Rightarrow> jsstring \<Rightarrow> fetch_call list \<times> any ApiResponse" where
  "apiService_getMagicLinkAnalytics fetch magicLinkId =
     request_as_declared fetch (js ''/appt/'' @ magicLinkId @ js ''/analytics'') no_options"

definition getMagicLinkUrl :: "jsstring \<Rightarrow> jsstring" where
  "getMagicLinkUrl magicLinkId = magicLinkBaseUrl @ js ''/appt/'' @ magicLinkId"

section \<open>hooks/useBooking.ts\<close>

record UseBookingState =
  ub_loading :: bool
  ub_error :: "jsstring option"
  ub_success :: bool
  ub_bookingResponse :: "BookingResponse option"
  ub_bookingDetails :: "BookingDetails option"

definition useBooking_initial :: UseBookingState where
  "useBooking_initial =
     \<lparr>ub_loading = False, ub_error = None, ub_success = False,
      ub_bookingResponse = None, ub_bookingDetails = None\<rparr>"

definition clearState :: "UseBookingState \<Rightarrow> UseBookingState" where
  "clearState prev =
     \<lparr>ub_loading = False, ub_error = None, ub_success = False,
      ub_bookingResponse = None, ub_bookingDetails = None\<rparr>"

text \<open>
  What \<open>await apiService.\<dots>\<close> gives inside the \<open>try\<close> of a hook action: the promise
  rejects with a thrown value, or resolves to a response.
\<close>

datatype 'a api_outcome = Threw js_thrown | Returned "'a ApiResponse"

text \<open>\<open>error instanceof Error ? error.message : 'An unexpected error occurred'\<close>\<close>

definition unexpected_message :: "js_thrown \<Rightarrow> jsstring" where
  "unexpected_message e =
     (case e of JsError m \<Rightarrow> m | JsOther \<Rightarrow> js ''An unexpected error occurred'')"

text \<open>
  Each action is two state updates: \<open>_start\<close> is the updater passed to \<open>setState\<close>
  before the request, \<open>_settle\<close> the one passed after the \<open>await\<close>, chosen by the
  outcome. Both are functions of the previous state, as in the source.
\<close>

definition createBooking_start :: "UseBookingState \<Rightarrow> UseBookingState" where
  "createBooking_start prev = prev\<lparr>ub_loading := True, ub_error := None, ub_success := False\<rparr>"

definition createBooking_settle ::
  "BookingResponse api_outcome \<Rightarrow> UseBookingState \<Rightarrow> UseBookingState" where
  "createBooking_settle outcome prev =
     (case outcome of
        Returned response \<Rightarrow>
          if r_success response \<and> r_data response \<noteq> None then
            prev\<lparr>ub_loading := False, ub_success := True,
                 ub_bookingResponse := r_data response, ub_error := None\<rparr>
          else
            prev\<lparr>ub_loading := False,
                 ub_error := Some (or_else (r_error response) (js ''Failed to create booking'')),
                 ub_success := False\<rparr>
      | Threw e \<Rightarrow>
          prev\<lparr>ub_loading := False, ub_error := Some (unexpected_message e),
               ub_success := False\<rparr>)"

definition confirmBooking_start :: "UseBookingState \<Rightarrow> UseBookingState" where
  "confirmBooking_start prev = prev\<lparr>ub_loading := True, ub_error := None\<rparr>"

definition confirmBooking_settle ::
  "any api_outcome \<Rightarrow> UseBookingState \<Rightarrow> UseBookingState" where
  "confirmBooking_settle outcome prev =
     (case outcome of
        Returned response \<Rightarrow>
          if r_success response then
            prev\<lparr>ub_loading := False, ub_success := True, ub_error := None\<rparr>
          else
            prev\<lparr>ub_loading := False,
                 ub_error := Some (or_else (r_error response) (js ''Failed to confirm booking'')),
                 ub_success := False\<rparr>
      | Threw e \<Rightarrow>
          prev\<lparr>ub_loading := False, ub_error := Some (unexpected_message e),
               ub_success := False\<rparr>)"

definition updatePayment_start :: "UseBookingState \<Rightarrow> UseBookingState" where
  "updatePayment_start prev = prev\<lparr>ub_loading := True, ub_error := None\<rparr>"

definition updatePayment_settle ::
  "any api_outcome \<Rightarrow> UseBookingState \<Rightarrow> UseBookingState" where
  "updatePayment_settle outcome prev =
     (case outcome of
        Returned response \<Rightarrow>
          if r_success response then
            prev\<lparr>ub_loading := False, ub_success := True, ub_error := None\<rparr>
          else
            prev\<lparr>ub_loading := False,
                 ub_error := Some (or_else (r_error response) (js ''Failed to update payment'')),
                 ub_success := False\<rparr>
      | Threw e \<Rightarrow>
          prev\<lparr>ub_loading := False, ub_error := Some (unexpected_message e),
               ub_success := False\<rparr>)"

definition getBookingDetails_start :: "UseBookingState \<Rightarrow> UseBookingState" where
  "getBookingDetails_start prev = prev\<lparr>ub_loading := True, ub_error := None\<rparr>"

definition getBookingDetails_settle ::
  "BookingDetails api_outcome \<Rightarrow> UseBookingState \<Rightarrow> UseBookingState" where
  "getBookingDetails_settle outcome prev =
     (case outcome of
        Returned response \<Rightarrow>
          if r_success response \<and> r_data response \<noteq> None then
            prev\<lparr>ub_loading := False, ub_success := True,
                 ub_bookingDetails := r_data response, ub_error := None\<rparr>
          else
            prev\<lparr>ub_loading := False,
                 ub_error :=
                   Some (or_else (r_error response) (js ''Failed to fetch booking details'')),
                 ub_success := False\<rparr>
      | Threw e \<Rightarrow>
          prev\<lparr>ub_loading := False, ub_error := Some (unexpected_message e),
               ub_success := False\<rparr>)"

text \<open>
  The actions as the hook runs them against the service: the \<open>fetch\<close> calls made and
  the state once the action's promise has resolved.
\<close>

definition useBooking_createBooking ::
  "BookingResponse fetch \<Rightarrow> BookingFormData \<Rightarrow> UseBookingState
    \<Rightarrow> fetch_call list \<times> UseBookingState" where
  "useBooking_createBooking fetch formData s =
     (let s1 = createBooking_start s;
          (calls, response) = apiService_createBooking fetch formData
      in (calls, createBooking_settle (Returned response) s1))"

definition useBooking_confirmBooking ::
  "any fetch \<Rightarrow> jsstring \<Rightarrow> UseBookingState \<Rightarrow> fetch_call list \<times> UseBookingState" where
  "useBooking_confirmBooking fetch uuid s =
     (let s1 = confirmBooking_start s;
          (calls, response) = apiService_confirmBooking fetch uuid
      in (calls, confirmBooking_settle (Returned response) s1))"

definition useBooking_updatePayment ::
  "any fetch \<Rightarrow> jsstring \<Rightarrow> PaymentUpdateRequest \<Rightarrow> UseBookingState
    \<Rightarrow> fetch_call list \<times> UseBookingState" where
  "useBooking_updatePayment fetch uuid paymentData s =
     (let s1 = updatePayment_start s;
          (calls, response) = apiService_updatePaymentStatus fetch uuid paymentData
      in (calls, updatePayment_settle (Returned response) s1))"

definition useBooking_getBookingDetails ::
  "BookingDetails fetch \<Rightarrow> jsstring \<Rightarrow> UseBookingState \<Rightarrow> fetch_call list \<times> UseBookingState" where
  "useBooking_getBookingDetails fetch uuid s =
     (let s1 = getBookingDetails_start s;
          (calls, response) = apiService_getBookingDetails fetch uuid
      in (calls, getBookingDetails_settle (Returned response) s1))"

section \<open>hooks/useMagicLink.ts\<close>

record UseMagicLinkState =
  um_loading :: bool
  um_error :: "jsstring option"
  um_preview :: "MagicLinkPreview option"
  um_analytics :: "any option"

definition useMagicLink_initial :: UseMagicLinkState where
  "useMagicLink_initial =
     \<lparr>um_loading = False, um_error = None, um_preview = None, um_analytics = None\<rparr>"

definition previewMagicLink_start :: "UseMagicLinkState \<Rightarrow> UseMagicLinkState" where
  "previewMagicLink_start prev = prev\<lparr>um_loading := True, um_error := None\<rparr>"

definition previewMagicLink_settle ::
  "MagicLinkPreview api_outcome \<Rightarrow> UseMagicLinkState \<Rightarrow> UseMagicLinkState" where
  "previewMagicLink_settle outcome prev =
     (case outcome of
        Returned response \<Rightarrow>
          if r_success response \<and> r_data response \<noteq> None then
            prev\<lparr>um_loading := False, um_preview := r_data response, um_error := None\<rparr>
          else
            prev\<lparr>um_loading := False,
                 um_error :=
                   Some (or_else (r_error response) (js ''Failed to preview magic link''))\<rparr>
      | Threw e \<Rightarrow>
          prev\<lparr>um_loading := False, um_error := Some (unexpected_message e)\<rparr>)"

definition useMagicLink_previewMagicLink ::
  "MagicLinkPreview fetch \<Rightarrow> jsstring \<Rightarrow> UseMagicLinkState
    \<Rightarrow> fetch_call list \<times> UseMagicLinkState" where
  "useMagicLink_previewMagicLink fetch magicLinkId s =
     (let s1 = previewMagicLink_start s;
          (calls, response) = apiService_previewMagicLink fetch magicLinkId
      in (calls, previewMagicLink_settle (Returned response) s1))"

text \<open>
  \<open>trackEvent\<close> calls no \<open>setState\<close>. Its result is how its own promise settles and
  the state it leaves: \<open>Inl\<close> would be a rejection, \<open>Inr\<close> is the state after it
  resolved. A rejection of the awaited call is caught and logged.
\<close>

definition trackEvent_settle ::
  "any api_outcome \<Rightarrow> UseMagicLinkState \<Rightarrow> js_thrown + UseMagicLinkState" where
  "trackEvent_settle outcome s =
     (case outcome of
        Returned response \<Rightarrow> Inr s
      | Threw e \<Rightarrow> Inr s)"

definition useMagicLink_trackEvent ::
  "any fetch \<Rightarrow> jsstring \<Rightarrow> AnalyticsEvent \<Rightarrow> UseMagicLinkState
    \<Rightarrow> fetch_call list \<times> (js_thrown + UseMagicLinkState)" where
  "useMagicLink_trackEvent fetch magicLinkId eventData s =
     (let (calls, response) = apiService_trackMagicLinkEvent fetch magicLinkId eventData
      in (calls, trackEvent_settle (Returned response) s))"

section \<open>components/BookingForm.tsx\<close>

text \<open>The \<open>value\<close> attributes of the options of the two \<open>select\<close> elements.\<close>

definition appointmentType_options :: "jsstring list" where
  "appointmentType_options =
     [js ''CONSULTATION'', js ''TUTORIAL'', js ''ASSESSMENT'', js ''GROUP_SESSION'',
      js ''WORKSHOP'']"

definition level_options :: "jsstring list" where
  "level_options =
     [js [], js ''beginner'', js ''intermediate'', js ''advanced'', js ''expert'']"

text \<open>
  The initial form data; \<open>today\<close> is \<open>new Date().toISOString().slice(0, 16)\<close>.
\<close>

definition BookingForm_initial :: "jsstring \<Rightarrow> BookingFormData" where
  "BookingForm_initial today =
     \<lparr>f_userName = js [], f_userPhone = js [],
      f_appointmentType = js ''CONSULTATION'',
      f_appointmentDate = today,
      f_bookingDetails =
        \<lparr>fd_subject = Some (js []), fd_level = Some (js []), fd_duration = Some 60,
         fd_notes = Some (js [])\<rparr>\<rparr>"

datatype form_field = UserNameField | UserPhoneField | AppointmentTypeField | AppointmentDateField

datatype details_field = SubjectField | LevelField | NotesField

definition handleInputChange ::
  "form_field \<Rightarrow> jsstring \<Rightarrow> BookingFormData \<Rightarrow> BookingFormData" where
  "handleInputChange field v prev =
     (case field of
        UserNameField \<Rightarrow> prev\<lparr>f_userName := v\<rparr>
      | UserPhoneField \<Rightarrow> prev\<lparr>f_userPhone := v\<rparr>
      | AppointmentTypeField \<Rightarrow> prev\<lparr>f_appointmentType := v\<rparr>
      | AppointmentDateField \<Rightarrow> prev\<lparr>f_appointmentDate := v\<rparr>)"

definition handleBookingDetailsChange ::
  "details_field \<Rightarrow> jsstring \<Rightarrow> BookingFormData \<Rightarrow> BookingFormData" where
  "handleBookingDetailsChange field v prev =
     prev\<lparr>f_bookingDetails :=
       (case field of
          SubjectField \<Rightarrow> (f_bookingDetails prev)\<lparr>fd_subject := Some v\<rparr>
        | LevelField \<Rightarrow> (f_bookingDetails prev)\<lparr>fd_level := Some v\<rparr>
        | NotesField \<Rightarrow> (f_bookingDetails prev)\<lparr>fd_notes := Some v\<rparr>)\<rparr>"

text \<open>
  The change events the rendered form can raise. A text input reports any string; a
  \<open>select\<close> reports the value of one of its options, given here by its position.
\<close>

datatype form_event =
  UserNameInput jsstring
| UserPhoneInput jsstring
| AppointmentTypeSelect nat
| AppointmentDateInput jsstring
| SubjectInput jsstring
| LevelSelect nat
| NotesInput jsstring

fun onChange :: "form_event \<Rightarrow> BookingFormData \<Rightarrow> BookingFormData" where
  "onChange (UserNameInput v) prev = handleInputChange UserNameField v prev"
| "onChange (UserPhoneInput v) prev = handleInputChange UserPhoneField v prev"
| "onChange (AppointmentTypeSelect i) prev =
     (if i < length appointmentType_options
      then handleInputChange AppointmentTypeField (appointmentType_options ! i) prev
      else prev)"
| "onChange (AppointmentDateInput v) prev = handleInputChange AppointmentDateField v prev"
| "onChange (SubjectInput v) prev = handleBookingDetailsChange SubjectField v prev"
| "onChange (LevelSelect i) prev =
     (if i < length level_options
      then handleBookingDetailsChange LevelField (level_options ! i) prev
      else prev)"
| "onChange (NotesInput v) prev = handleBookingDetailsChange NotesField v prev"

text \<open>The form data after a sequence of change events, starting from the initial data.\<close>

definition form_after :: "jsstring \<Rightarrow> form_event list \<Rightarrow> BookingFormData" where
  "form_after today events = foldl (\<lambda>d e. onChange e d) (BookingForm_initial today) events"

text \<open>
  \<open>handleSubmit\<close>. \<open>toISOString\<close> stands for \<open>new Date(s).toISOString()\<close>, which
  throws a \<open>RangeError\<close> on a string that is not a date (\<open>None\<close>); the throw lands in
  the \<open>catch\<close> of \<open>handleSubmit\<close>. The optional \<open>onSubmit\<close> callback of the parent
  makes no request of its own and is left out.
\<close>

definition handleSubmit ::
  "(jsstring \<Rightarrow> jsstring option) \<Rightarrow> BookingResponse fetch \<Rightarrow> BookingFormData
    \<Rightarrow> UseBookingState \<Rightarrow> fetch_call list \<times> UseBookingState" where
  "handleSubmit toISOString fetch formData s =
     (let s0 = clearState s in
      if trim (f_userName formData) = [] then ([], s0)
      else if trim (f_userPhone formData) = [] then ([], s0)
      else if f_appointmentDate formData = [] then ([], s0)
      else
        (case toISOString (f_appointmentDate formData) of
           None \<Rightarrow> ([], s0)
         | Some isoDate \<Rightarrow>
             useBooking_createBooking fetch (formData\<lparr>f_appointmentDate := isoDate\<rparr>) s0))"

text \<open>
  The appointmentType a request submits: the field of the form data in its body, if
  the body is form data.
\<close>

definition submitted_appointmentType :: "fetch_call \<Rightarrow> jsstring option" where
  "submitted_appointmentType c =
     (case ri_body (fc_init c) of
        Some (BookingBody d) \<Rightarrow> Some (f_appointmentType d)
      | _ \<Rightarrow> None)"

section \<open>components/BookingDetails.tsx\<close>

datatype button = ConfirmBookingButton | MarkPaidButton | MarkFailedButton

text \<open>An optional string is truthy when it is neither \<open>undefined\<close>, \<open>null\<close> nor empty.\<close>

definition truthy :: "jsstring option \<Rightarrow> bool" where
  "truthy x \<longleftrightarrow> x \<noteq> None \<and> x \<noteq> Some []"

text \<open>
  The action buttons of one render, each with its \<open>disabled\<close> attribute. The
  component returns early, without buttons, while loading, when the error is truthy
  and when there are no booking details.
\<close>

definition action_buttons :: "UseBookingState \<Rightarrow> bool \<Rightarrow> (button \<times> bool) list" where
  "action_buttons s paymentLoading =
     (if ub_loading s then []
      else if truthy (ub_error s) then []
      else
        (case ub_bookingDetails s of
           None \<Rightarrow> []
         | Some details \<Rightarrow>
             (if bd_status details = js ''pending_confirmation''
              then [(ConfirmBookingButton, ub_loading s)] else []) @
             (if bd_status details = js ''confirmed'' \<and> bd_paymentStatus details = js ''pending''
              then [(MarkPaidButton, paymentLoading), (MarkFailedButton, paymentLoading)]
              else [])))"

text \<open>
  What a handler does: the \<open>fetch\<close> calls it makes, the uuid whose details it asks
  to be fetched again a second later (\<open>setTimeout\<close>), and the hook state it leaves.
\<close>

record handled =
  h_calls :: "fetch_call list"
  h_refresh :: "jsstring option"
  h_state :: UseBookingState

definition unhandled :: "UseBookingState \<Rightarrow> handled" where
  "unhandled s = \<lparr>h_calls = [], h_refresh = None, h_state = s\<rparr>"

text \<open>\<open>handleConfirmBooking\<close>; the prop \<open>uuid\<close> is optional.\<close>

definition handleConfirmBooking ::
  "any fetch \<Rightarrow> jsstring option \<Rightarrow> UseBookingState \<Rightarrow> handled" where
  "handleConfirmBooking fetch uuid s =
     (case uuid of
        None \<Rightarrow> unhandled s
      | Some u \<Rightarrow>
          if u \<noteq> [] \<and>
             map_option bd_status (ub_bookingDetails s) = Some (js ''pending_confirmation'')
          then
            (let (calls, s') = useBooking_confirmBooking fetch u s
             in \<lparr>h_calls = calls, h_refresh = Some u, h_state = s'\<rparr>)
          else unhandled s)"

text \<open>
  \<open>handlePaymentUpdate\<close>; \<open>now\<close> is \<open>Date.now()\<close>. The argument is
  \<open>'completed' | 'failed'\<close>. The flag \<open>paymentLoading\<close> is component state
  outside the hook, and the \<open>onPaymentUpdate\<close> callback of the parent makes no
  request of its own; both are left out.
\<close>

datatype mark = completed_mark | failed_mark

definition handlePaymentUpdate ::
  "any fetch \<Rightarrow> nat \<Rightarrow> jsstring option \<Rightarrow> mark \<Rightarrow> UseBookingState \<Rightarrow> handled" where
  "handlePaymentUpdate fetch now uuid status s =
     (case uuid of
        None \<Rightarrow> unhandled s
      | Some u \<Rightarrow>
          if u = [] then unhandled s
          else
            (let (calls, s') =
                   useBooking_updatePayment fetch u
                     \<lparr>pu_paymentStatus =
                        (case status of completed_mark \<Rightarrow> PU_completed
                                      | failed_mark \<Rightarrow> PU_failed),
                      pu_paymentId = Some (js (''payment_'' @ show_nat now)),
                      pu_amount =
                        (case status of completed_mark \<Rightarrow> Some 100 | failed_mark \<Rightarrow> None),
                      pu_currency =
                        (case status of completed_mark \<Rightarrow> Some (js ''USD'')
                                      | failed_mark \<Rightarrow> None)\<rparr> s
             in \<lparr>h_calls = calls, h_refresh = Some u, h_state = s'\<rparr>))"

text \<open>
  A click reaches a handler only through a button of the current render that is not
  disabled.
\<close>

definition click ::
  "any fetch \<Rightarrow> nat \<Rightarrow> jsstring option \<Rightarrow> button \<Rightarrow> UseBookingState \<Rightarrow> bool \<Rightarrow> handled" where
  "click fetch now uuid b s paymentLoading =
     (if (b, False) \<in> set (action_buttons s paymentLoading) then
        (case b of
           ConfirmBookingButton \<Rightarrow> handleConfirmBooking fetch uuid s
         | MarkPaidButton \<Rightarrow> handlePaymentUpdate fetch now uuid completed_mark s
         | MarkFailedButton \<Rightarrow> handlePaymentUpdate fetch now uuid failed_mark s)
      else unhandled s)"

text \<open>
  The two requests that change a booking, told apart from the others the service
  makes by method and path.
\<close>

definition is_confirm_request :: "fetch_call \<Rightarrow> bool" where
  "is_confirm_request c \<longleftrightarrow>
     ri_method (fc_init c) = Some (js ''POST'') \<and>
     take (length (apiBaseUrl @ js ''/api/booking/confirm/'')) (fc_url c)
       = apiBaseUrl @ js ''/api/booking/confirm/''"

definition is_payment_request :: "fetch_call \<Rightarrow> bool" where
  "is_payment_request c \<longleftrightarrow>
     ri_method (fc_init c) = Some (js ''PUT'') \<and>
     take (length (apiBaseUrl @ js ''/api/booking/payment/'')) (fc_url c)
       = apiBaseUrl @ js ''/api/booking/payment/''"

section \<open>components/PaymentInterface.tsx\<close>

text \<open>
  The first match of \<open>/\d{4,16}/g\<close>: at the leftmost position followed by at least
  four digits, the longest run of digits there, up to sixteen.
\<close>

fun first_match :: "jsstring \<Rightarrow> jsstring option" where
  "first_match [] = None"
| "first_match (c # cs) =
     (let run = takeWhile isDigit (c # cs)
      in if 4 \<le> length run then Some (take 16 run) else first_match cs)"

text \<open>\<open>String.prototype.substring\<close> on indices that are natural numbers.\<close>

definition substring :: "jsstring \<Rightarrow> nat \<Rightarrow> nat \<Rightarrow> jsstring" where
  "substring s a b = (let lo = min a b; hi = max a b in take (hi - lo) (drop lo s))"

text \<open>The \<open>for\<close> loop of \<open>formatCardNumber\<close>, with \<open>parts\<close> as accumulator.\<close>

function parts_loop :: "jsstring \<Rightarrow> nat \<Rightarrow> nat \<Rightarrow> jsstring list \<Rightarrow> jsstring list" where
  "parts_loop match i len parts =
     (if i < len then parts_loop match (i + 4) len (parts @ [substring match i (i + 4)])
      else parts)"
  by pat_completeness auto
termination
  by (relation "measure (\<lambda>(match, i, len, parts). len - i)") auto

text \<open>
  \<open>formatCardNumber\<close>: the two \<open>replace\<close> calls delete every white-space unit and
  then every unit outside \<open>0-9\<close>.
\<close>

definition formatCardNumber :: "jsstring \<Rightarrow> jsstring" where
  "formatCardNumber v0 =
     (let v = filter isDigit (filter (\<lambda>c. \<not> isWhiteSpace c) v0);
          match = (case first_match v of None \<Rightarrow> [] | Some m \<Rightarrow> m);
          parts = parts_loop match 0 (length match) []
      in if parts \<noteq> [] then join 0x20 parts else v)"

section \<open>The booking core behind the API\<close>

text \<open>
  The client sources call a backend whose code is not among them. The definitions of
  this section follow the specification of that backend: the booking record, the
  store, the status state machine and the magic-link resolver.
\<close>

text \<open>Modelled from the spec: the error kinds of the backend core, which is not in the sources.\<close>

datatype core_error =
  NotFound | InvalidStateTransition | DuplicateIdentifier | StoreUnavailable | ValidationFailure

text \<open>
  Modelled from the spec: the Booking entity of the backend store, which is not in the
  sources. Times are natural numbers.
\<close>

record Booking =
  bk_internalId :: jsstring
  bk_bookingId :: jsstring
  bk_magicLinkId :: jsstring
  bk_userName :: jsstring
  bk_userPhone :: jsstring
  bk_appointmentType :: AppointmentType
  bk_appointmentDate :: nat
  bk_details :: any
  bk_status :: BookingStatus
  bk_paymentStatus :: PaymentStatus
  bk_paymentId :: "jsstring option"
  bk_paymentAmount :: "int option"
  bk_paymentCurrency :: "jsstring option"
  bk_createdAt :: nat
  bk_confirmedAt :: "nat option"
  bk_paymentUpdatedAt :: "nat option"
  bk_lastAccessedAt :: "nat option"
  bk_accessCount :: nat

text \<open>
  Modelled from the spec: the booking store of the backend, which is not in the
  sources: the records it holds.
\<close>

type_synonym store = "Booking list"

text \<open>
  Modelled from the spec: \<open>getById\<close> of the backend store, which is not in the
  sources. It takes the internal identifier or the booking id; \<open>None\<close> is the
  failure \<open>NotFound\<close>.
\<close>

definition getById :: "store \<Rightarrow> jsstring \<Rightarrow> Booking option" where
  "getById st i = find (\<lambda>b. bk_internalId b = i \<or> bk_bookingId b = i) st"

text \<open>
  Modelled from the spec: \<open>getByMagicLink\<close> of the backend store, which is not in
  the sources. It takes the token; \<open>None\<close> is the failure \<open>NotFound\<close>.
\<close>

definition getByMagicLink :: "store \<Rightarrow> jsstring \<Rightarrow> Booking option" where
  "getByMagicLink st token = find (\<lambda>b. bk_magicLinkId b = token) st"

text \<open>
  Modelled from the spec: the write of one booking record of the backend store, which
  is not in the sources; the record is found by its internal identifier.
\<close>

definition store_write :: "store \<Rightarrow> Booking \<Rightarrow> store" where
  "store_write st b' = map (\<lambda>b. if bk_internalId b = bk_internalId b' then b' else b) st"

text \<open>
  Modelled from the spec: the status graph of the backend state machine, which is not
  in the sources: pending_confirmation to confirmed to completed, and cancelled from
  pending_confirmation or confirmed.
\<close>

fun status_edge :: "BookingStatus \<Rightarrow> BookingStatus \<Rightarrow> bool" where
  "status_edge pending_confirmation confirmed = True"
| "status_edge confirmed completed = True"
| "status_edge pending_confirmation cancelled = True"
| "status_edge confirmed cancelled = True"
| "status_edge _ _ = False"

text \<open>
  Modelled from the spec: a status transition of the backend state machine, which is
  not in the sources. Confirming a confirmed booking succeeds and changes nothing;
  entering confirmed sets \<open>confirmedAt\<close>; a move that is not an edge of the graph fails
  with \<open>InvalidStateTransition\<close> and writes nothing. The result is paired with the
  store after the call.
\<close>

definition transition_status ::
  "store \<Rightarrow> jsstring \<Rightarrow> BookingStatus \<Rightarrow> nat \<Rightarrow> (core_error + Booking) \<times> store" where
  "transition_status st i target now =
     (case getById st i of
        None \<Rightarrow> (Inl NotFound, st)
      | Some b \<Rightarrow>
          if bk_status b = confirmed \<and> target = confirmed then (Inr b, st)
          else if status_edge (bk_status b) target then
            (let b' = b\<lparr>bk_status := target,
                        bk_confirmedAt :=
                          (if target = confirmed then Some now else bk_confirmedAt b)\<rparr>
             in (Inr b', store_write st b'))
          else (Inl InvalidStateTransition, st))"

text \<open>
  Modelled from the spec: the redirect target of the magic-link resolver of the
  backend, which is not in the sources.
\<close>

definition redirect_target :: "jsstring \<Rightarrow> Booking \<Rightarrow> jsstring" where
  "redirect_target frontendBase b =
     frontendBase @ js ''/booking/'' @ bk_bookingId b
       @ js ''?status='' @ js (BookingStatus_literal (bk_status b))
       @ js ''&payment_status='' @ js (PaymentStatus_literal (bk_paymentStatus b))
       @ js ''&source=magic_link''"

text \<open>
  Modelled from the spec: \<open>resolve\<close> of the magic-link resolver of the backend, which
  is not in the sources. It counts the access and sets \<open>lastAccessedAt\<close>.
\<close>

definition resolve ::
  "jsstring \<Rightarrow> store \<Rightarrow> jsstring \<Rightarrow> nat \<Rightarrow> (core_error + jsstring) \<times> store" where
  "resolve frontendBase st token now =
     (case getByMagicLink st token of
        None \<Rightarrow> (Inl NotFound, st)
      | Some b \<Rightarrow>
          (let b' = b\<lparr>bk_accessCount := bk_accessCount b + 1, bk_lastAccessedAt := Some now\<rparr>
           in (Inr (redirect_target frontendBase b'), store_write st b')))"

text \<open>
  Modelled from the spec: the result of \<open>preview\<close> of the magic-link resolver of the
  backend, which is not in the sources.
\<close>

record PreviewResult =
  pv_bookingId :: jsstring
  pv_redirectTarget :: jsstring
  pv_status :: BookingStatus
  pv_bookingSnapshot :: Booking

text \<open>
  Modelled from the spec: \<open>preview\<close> of the magic-link resolver of the backend, which
  is not in the sources: the lookup of \<open>resolve\<close> without the count and without the
  redirect. The result is paired with the store after the call.
\<close>

definition preview ::
  "jsstring \<Rightarrow> store \<Rightarrow> jsstring \<Rightarrow> (core_error + PreviewResult) \<times> store" where
  "preview frontendBase st token =
     (case getByMagicLink st token of
        None \<Rightarrow> (Inl NotFound, st)
      | Some b \<Rightarrow>
          (Inr \<lparr>pv_bookingId = bk_bookingId b,
                pv_redirectTarget = redirect_target frontendBase b,
                pv_status = bk_status b,
                pv_bookingSnapshot = b\<rparr>, st))"

text \<open>
  Modelled from the spec: \<open>n\<close> calls of \<open>preview\<close> in a row on the backend, which is
  not in the sources; the result is the store after the last call.
\<close>

fun preview_times :: "nat \<Rightarrow> jsstring \<Rightarrow> store \<Rightarrow> jsstring \<Rightarrow> store" where
  "preview_times 0 frontendBase st token = st"
| "preview_times (Suc n) frontendBase st token =
     preview_times n frontendBase (snd (preview frontendBase st token)) token"

section \<open>Concrete inputs\<close>

text \<open>The wording of an engine's two \<open>TypeError\<close>s.\<close>

definition engine_wording :: engine where
  "engine_wording =
     \<lparr>en_null_read = js ''Cannot read properties of null'',
      en_no_primitive = js ''Cannot convert object to primitive value''\<rparr>"

text \<open>
  The platform rejecting with an \<open>Error\<close> of empty message, as \<open>fetch\<close> does with
  the reason of an aborted signal that is such an \<open>Error\<close>.
\<close>

definition platform_rejects_empty :: platform_fetch where
  "platform_rejects_empty call = Rejects (JsError [])"

text \<open>The platform rejecting as browsers do when the network is down.\<close>

definition platform_fails :: platform_fetch where
  "platform_fails call = Rejects (JsError (js ''Failed to fetch''))"

text \<open>Status 500 with the body \<open>{"error": []}\<close>.\<close>

definition platform_error_array :: platform_fetch where
  "platform_error_array call =
     Resolves \<lparr>rw_ok = False, rw_status = 500, rw_json = Inr (JObj [(js ''error'', JArr [])])\<rparr>"

text \<open>Status 200 with the body \<open>null\<close>.\<close>

definition platform_ok_null :: platform_fetch where
  "platform_ok_null call = Resolves \<lparr>rw_ok = True, rw_status = 200, rw_json = Inr JNull\<rparr>"

text \<open>Status 502 with a body that is no JSON, on which the parser throws.\<close>

definition platform_bad_gateway :: platform_fetch where
  "platform_bad_gateway call =
     Resolves \<lparr>rw_ok = False, rw_status = 502,
       rw_json = Inl (JsError (js ''Unexpected token < in JSON at position 0''))\<rparr>"

text \<open>Status 404 with the body \<open>{"success": false, "error": "Booking not found"}\<close>.\<close>

definition platform_not_found :: platform_fetch where
  "platform_not_found call =
     Resolves \<lparr>rw_ok = False, rw_status = 404,
       rw_json = Inr (JObj [(js ''success'', JBool False),
                            (js ''error'', JStr (js ''Booking not found''))])\<rparr>"

text \<open>Status 500 with the body \<open>{}\<close>.\<close>

definition platform_server_error :: platform_fetch where
  "platform_server_error call =
     Resolves \<lparr>rw_ok = False, rw_status = 500, rw_json = Inr (JObj [])\<rparr>"

text \<open>A \<open>fetch\<close> that rejects with an \<open>Error\<close> whose message is the empty string.\<close>

definition fetch_rejects_empty :: "any fetch" where
  "fetch_rejects_empty call = Rejected (JsError [])"

text \<open>A \<open>fetch\<close> that resolves to status 200 and the body \<open>{success: true}\<close>.\<close>

definition fetch_succeeds :: "'a fetch" where
  "fetch_succeeds call =
     Resolved \<lparr>rs_ok = True, rs_status = 200,
       rs_json = Inr \<lparr>r_success = True, r_data = None, r_error = None, r_message = None\<rparr>\<rparr>"

text \<open>
  The form after a name and a phone number have been typed, and a conversion of its
  \<open>datetime-local\<close> value to an ISO string.
\<close>

definition form_filled :: BookingFormData where
  "form_filled =
     form_after (js ''2025-03-01T10:00'')
       [UserNameInput (js ''Jane Doe''), UserPhoneInput (js ''+15551234567'')]"

definition toISOString_utc :: "jsstring \<Rightarrow> jsstring option" where
  "toISOString_utc d = Some (d @ js '':00.000Z'')"

text \<open>The booking details of a confirmed booking that awaits payment.\<close>

definition details_confirmed :: BookingDetails where
  "details_confirmed =
     \<lparr>bd_id = js ''u1'', bd_bookingId = js ''booking_1'', bd_magicLinkId = js ''tok'',
      bd_userName = js ''Jane Doe'', bd_userPhone = js ''+15551234567'',
      bd_appointmentType = js ''CONSULTATION'', bd_appointmentDate = js ''2025-03-01T10:00:00Z'',
      bd_bookingDetails = JNull, bd_status = js ''confirmed'', bd_paymentStatus = js ''pending'',
      bd_paymentId = None, bd_paymentAmount = None, bd_paymentCurrency = None,
      bd_createdAt = js ''2025-02-01T10:00:00Z'', bd_confirmedAt = None,
      bd_paymentUpdatedAt = None, bd_lastAccessedAt = None, bd_accessCount = 0\<rparr>"

text \<open>The hook state of the booking details view once those details have been fetched.\<close>

definition state_confirmed :: UseBookingState where
  "state_confirmed =
     \<lparr>ub_loading = False, ub_error = None, ub_success = True,
      ub_bookingResponse = None, ub_bookingDetails = Some details_confirmed\<rparr>"

text \<open>A stored booking that waits for confirmation.\<close>

definition booking_pending :: Booking where
  "booking_pending =
     \<lparr>bk_internalId = js ''u1'', bk_bookingId = js ''booking_1'', bk_magicLinkId = js ''tok'',
      bk_userName = js ''Jane Doe'', bk_userPhone = js ''+15551234567'',
      bk_appointmentType = CONSULTATION, bk_appointmentDate = 1740823200,
      bk_details = JNull, bk_status = pending_confirmation, bk_paymentStatus = PS_pending,
      bk_paymentId = None, bk_paymentAmount = None, bk_paymentCurrency = None,
      bk_createdAt = 1738404000, bk_confirmedAt = None,
      bk_paymentUpdatedAt = None, bk_lastAccessedAt = None, bk_accessCount = 0\<rparr>"

text \<open>The same booking once it has been completed.\<close>

definition booking_completed :: Booking where
  "booking_completed = booking_pending\<lparr>bk_status := completed, bk_confirmedAt := Some 3\<rparr>"

section \<open>Properties\<close>

text \<open>
  The equations of \<open>show_nat\<close> and \<open>parts_loop\<close> rewrite a call into a call; they are
  applied by hand.
\<close>

declare show_nat.simps [simp del]

declare parts_loop.simps [simp del]

subsection \<open>Strings\<close>

lemma js_Nil [simp]: "js [] = []"
  by (simp add: js_def)

lemma js_Cons: "js (c # s) = of_nat (of_char c) # js s"
  by (simp add: js_def)

lemma js_append: "js (a @ b) = js a @ js b"
  by (simp add: js_def)

lemma js_eq_Nil [simp]: "js s = [] \<longleftrightarrow> s = []"
  by (simp add: js_def)

lemma length_js [simp]: "length (js s) = length s"
  by (simp add: js_def)

lemma trim_eq_Nil: "trim s = [] \<longleftrightarrow> (\<forall>c\<in>set s. isWhiteSpace c)"
proof -
  have "trim s = [] \<longleftrightarrow> (\<forall>c\<in>set (dropWhile isWhiteSpace s). isWhiteSpace c)"
    by (simp add: trim_def dropWhile_eq_Nil_conv)
  also have "\<dots> \<longleftrightarrow> dropWhile isWhiteSpace s = []"
  proof
    assume a: "\<forall>c\<in>set (dropWhile isWhiteSpace s). isWhiteSpace c"
    show "dropWhile isWhiteSpace s = []"
    proof (rule ccontr)
      assume "dropWhile isWhiteSpace s \<noteq> []"
      then have "\<not> isWhiteSpace (hd (dropWhile isWhiteSpace s))"
        by (rule hd_dropWhile)
      moreover have "hd (dropWhile isWhiteSpace s) \<in> set (dropWhile isWhiteSpace s)"
        using \<open>dropWhile isWhiteSpace s \<noteq> []\<close> by simp
      ultimately show False using a by blast
    qed
  qed (auto dest: set_dropWhileD)
  also have "\<dots> \<longleftrightarrow> (\<forall>c\<in>set s. isWhiteSpace c)"
    by (simp add: dropWhile_eq_Nil_conv)
  finally show ?thesis .
qed

subsection \<open>getMagicLinkUrl\<close>

text \<open>
  Claim C8: for every magicLinkId, getMagicLinkUrl returns the magic-link base URL
  followed by "/appt/" and the magicLinkId, and nothing else; the result is a function
  of the magicLinkId alone.
\<close>

theorem getMagicLinkUrl_shape:
  "getMagicLinkUrl magicLinkId = magicLinkBaseUrl @ js ''/appt/'' @ magicLinkId \<and>
   getMagicLinkUrl magicLinkId = js ''https://tbook-v1.vercel.app/appt/'' @ magicLinkId \<and>
   drop (length (magicLinkBaseUrl @ js ''/appt/'')) (getMagicLinkUrl magicLinkId) = magicLinkId"
  by (simp add: getMagicLinkUrl_def magicLinkBaseUrl_def js_append [symmetric])

subsection \<open>formatCardNumber\<close>

lemma digit_not_space: "isDigit c \<Longrightarrow> \<not> isWhiteSpace c"
  by (auto simp: isDigit_def isWhiteSpace_def)

lemma filter_digits_after_spaces:
  "filter isDigit (filter (\<lambda>c. \<not> isWhiteSpace c) s) = filter isDigit s"
  by (induction s) (auto dest: digit_not_space)

lemma first_match_short: "length v < 4 \<Longrightarrow> first_match v = None"
proof (induction v)
  case Nil
  then show ?case by simp
next
  case (Cons c cs)
  have "length (takeWhile isDigit (c # cs)) \<le> length (c # cs)"
    by (rule length_takeWhile_le)
  with Cons show ?case by (simp add: Let_def del: takeWhile.simps)
qed

lemma first_match_digits:
  assumes "\<forall>c\<in>set v. isDigit c"
  shows "first_match v = (if 4 \<le> length v then Some (take 16 v) else None)"
proof (cases "4 \<le> length v")
  case False
  then show ?thesis by (simp add: first_match_short)
next
  case True
  then obtain c cs where v: "v = c # cs" by (cases v) auto
  have run: "takeWhile isDigit (c # cs) = c # cs"
    using assms unfolding v by (simp only: takeWhile_eq_all_conv)
  have "first_match (c # cs) = Some (take 16 (c # cs))"
    using True unfolding v by (simp only: first_match.simps run Let_def if_True)
  then show ?thesis using True unfolding v by simp
qed

lemma substring_step: "substring m i (i + 4) = take 4 (drop i m)"
  by (simp add: substring_def Let_def)

lemma concat_parts_loop:
  "concat (parts_loop m i (length m) acc) = concat acc @ drop i m"
proof (induction m i "length m" acc rule: parts_loop.induct)
  case (1 m i parts)
  show ?case
  proof (cases "i < length m")
    case True
    have "take 4 (drop i m) @ drop (i + 4) m = drop i m"
      by (metis add.commute append_take_drop_id drop_drop)
    with True 1 show ?thesis
      by (subst parts_loop.simps) (simp add: substring_step)
  next
    case False
    then show ?thesis by (subst parts_loop.simps) simp
  qed
qed

lemma parts_loop_blocks:
  "p \<in> set (parts_loop m i (length m) acc) \<Longrightarrow>
     p \<in> set acc \<or> (p \<noteq> [] \<and> length p \<le> 4 \<and> set p \<subseteq> set m)"
proof (induction m i "length m" acc rule: parts_loop.induct)
  case (1 m i parts)
  show ?case
  proof (cases "i < length m")
    case True
    with 1(2) have "p \<in> set (parts_loop m (i + 4) (length m) (parts @ [substring m i (i + 4)]))"
      by (subst (asm) parts_loop.simps) simp
    with 1(1) True have "p \<in> set (parts @ [substring m i (i + 4)]) \<or>
        (p \<noteq> [] \<and> length p \<le> 4 \<and> set p \<subseteq> set m)" by blast
    moreover have "take 4 (drop i m) \<noteq> []" using True by simp
    moreover have "set (take 4 (drop i m)) \<subseteq> set m"
      by (meson set_drop_subset set_take_subset subset_trans)
    ultimately show ?thesis by (auto simp: substring_step)
  next
    case False
    with 1(2) show ?thesis by (subst (asm) parts_loop.simps) simp
  qed
qed

lemma parts_loop_Nil_iff: "parts_loop m 0 (length m) [] = [] \<longleftrightarrow> m = []"
proof -
  have "concat (parts_loop m 0 (length m) []) = m"
    by (simp add: concat_parts_loop)
  moreover have "parts_loop [] 0 0 [] = []" by (subst parts_loop.simps) simp
  ultimately show ?thesis by (cases "m = []") auto
qed

lemma not_digit_space: "\<not> isDigit 0x20"
  by (simp add: isDigit_def)

lemma filter_join_digits:
  "(\<forall>p\<in>set ps. \<forall>c\<in>set p. isDigit c) \<Longrightarrow> filter isDigit (join 0x20 ps) = concat ps"
  by (induction "0x20 :: 16 word" ps rule: join.induct) (auto simp: not_digit_space)

text \<open>
  Claim C10: for every input string, formatCardNumber returns blocks of one to four
  decimal digits joined by single spaces; with at least four digits in the input the
  digits of the result are the first min(n, 16) digits of the input, and with fewer
  than four the result is those digits alone.
\<close>

theorem formatCardNumber_blocks:
  "(\<exists>blocks. formatCardNumber s = join 0x20 blocks \<and>
       (\<forall>b\<in>set blocks. b \<noteq> [] \<and> length b \<le> 4 \<and> (\<forall>c\<in>set b. isDigit c))) \<and>
   (4 \<le> length (filter isDigit s) \<longrightarrow>
       filter isDigit (formatCardNumber s)
         = take (min (length (filter isDigit s)) 16) (filter isDigit s)) \<and>
   (length (filter isDigit s) < 4 \<longrightarrow> formatCardNumber s = filter isDigit s)"
proof -
  define d where "d = filter isDigit s"
  define m where "m = (case first_match d of None \<Rightarrow> [] | Some m \<Rightarrow> m)"
  define parts where "parts = parts_loop m 0 (length m) []"
  have digits: "\<forall>c\<in>set d. isDigit c" by (simp add: d_def)
  have m_eq: "m = (if 4 \<le> length d then take 16 d else [])"
    by (simp add: m_def first_match_digits [OF digits])
  have fmt: "formatCardNumber s = (if parts \<noteq> [] then join 0x20 parts else d)"
    unfolding formatCardNumber_def filter_digits_after_spaces Let_def d_def m_def parts_def
    by (rule refl)
  have parts_ok: "\<forall>b\<in>set parts. b \<noteq> [] \<and> length b \<le> 4 \<and> (\<forall>c\<in>set b. isDigit c)"
  proof
    fix b assume "b \<in> set parts"
    then have "b \<noteq> [] \<and> length b \<le> 4 \<and> set b \<subseteq> set m"
      using parts_loop_blocks [of b m 0 "[]"] by (simp add: parts_def)
    moreover have "set m \<subseteq> set d" by (auto simp: m_eq dest: in_set_takeD)
    ultimately show "b \<noteq> [] \<and> length b \<le> 4 \<and> (\<forall>c\<in>set b. isDigit c)"
      using digits by blast
  qed
  have concat_parts: "concat parts = m" by (simp add: parts_def concat_parts_loop)
  have parts_Nil: "parts = [] \<longleftrightarrow> m = []" by (simp add: parts_def parts_loop_Nil_iff)
  have short: "length d < 4 \<Longrightarrow> formatCardNumber s = d"
    using parts_Nil by (simp add: fmt m_eq)
  have long: "4 \<le> length d \<Longrightarrow> filter isDigit (formatCardNumber s) = take (min (length d) 16) d"
  proof -
    assume l: "4 \<le> length d"
    then have "m \<noteq> []" by (auto simp: m_eq)
    then have "formatCardNumber s = join 0x20 parts" using parts_Nil by (simp add: fmt)
    then have "filter isDigit (formatCardNumber s) = m"
      using parts_ok by (simp add: filter_join_digits concat_parts)
    then show ?thesis using l by (simp add: m_eq min_def)
  qed
  have blocks: "\<exists>blocks. formatCardNumber s = join 0x20 blocks \<and>
       (\<forall>b\<in>set blocks. b \<noteq> [] \<and> length b \<le> 4 \<and> (\<forall>c\<in>set b. isDigit c))"
  proof (cases "parts = []")
    case False
    then show ?thesis using fmt parts_ok by auto
  next
    case True
    then have f: "formatCardNumber s = d" by (simp add: fmt)
    from True have "m = []" using parts_Nil by simp
    then have l: "length d < 4" by (auto simp: m_eq split: if_splits)
    show ?thesis
    proof (cases "d = []")
      case True
      then have "formatCardNumber s = join 0x20 []" using f by simp
      then show ?thesis by (intro exI [of _ "[]"]) simp
    next
      case False
      have "formatCardNumber s = join 0x20 [d]" using f by simp
      then show ?thesis using False l digits by (intro exI [of _ "[d]"]) simp
    qed
  qed
  show ?thesis using blocks short long unfolding d_def by blast
qed

theorem formatCardNumber_blocks_witness:
  "4 \<le> length (filter isDigit (js ''4111-1111 1111 1111 9'')) \<and>
   filter isDigit (formatCardNumber (js ''4111-1111 1111 1111 9'')) = js ''4111111111111111'' \<and>
   formatCardNumber (js ''4111-1111 1111 1111 9'') = js ''4111 1111 1111 1111'' \<and>
   length (filter isDigit (js ''12a'')) < 4 \<and>
   formatCardNumber (js ''12a'') = js ''12''"
proof -
  let ?long = "js ''4111-1111 1111 1111 9''" and ?short = "js ''12a''"
  have long: "4 \<le> length (filter isDigit ?long)" by code_simp
  have short: "length (filter isDigit ?short) < 4" by code_simp
  have "filter isDigit (formatCardNumber ?long)
          = take (min (length (filter isDigit ?long)) 16) (filter isDigit ?long)"
    using formatCardNumber_blocks [of ?long] long by blast
  also have "\<dots> = js ''4111111111111111''" by code_simp
  finally have digits: "filter isDigit (formatCardNumber ?long) = js ''4111111111111111''" .
  have "formatCardNumber ?short = filter isDigit ?short"
    using formatCardNumber_blocks [of ?short] short by blast
  also have "\<dots> = js ''12''" by code_simp
  finally have few: "formatCardNumber ?short = js ''12''" .
  have shape: "formatCardNumber ?long = js ''4111 1111 1111 1111''" by code_simp
  show ?thesis using long short digits few shape by blast
qed

subsection \<open>useBooking\<close>

lemma createBooking_settle_exclusive:
  "\<not> ub_loading (createBooking_settle outcome prev) \<and>
   (ub_success (createBooking_settle outcome prev)
      \<longleftrightarrow> ub_error (createBooking_settle outcome prev) = None)"
  by (cases outcome) (simp_all add: createBooking_settle_def)

lemma confirmBooking_settle_exclusive:
  "\<not> ub_loading (confirmBooking_settle outcome prev) \<and>
   (ub_success (confirmBooking_settle outcome prev)
      \<longleftrightarrow> ub_error (confirmBooking_settle outcome prev) = None)"
  by (cases outcome) (simp_all add: confirmBooking_settle_def)

lemma updatePayment_settle_exclusive:
  "\<not> ub_loading (updatePayment_settle outcome prev) \<and>
   (ub_success (updatePayment_settle outcome prev)
      \<longleftrightarrow> ub_error (updatePayment_settle outcome prev) = None)"
  by (cases outcome) (simp_all add: updatePayment_settle_def)

lemma getBookingDetails_settle_exclusive:
  "\<not> ub_loading (getBookingDetails_settle outcome prev) \<and>
   (ub_success (getBookingDetails_settle outcome prev)
      \<longleftrightarrow> ub_error (getBookingDetails_settle outcome prev) = None)"
  by (cases outcome) (simp_all add: getBookingDetails_settle_def)

lemma useBooking_actions_settle:
  "snd (useBooking_createBooking fetch1 formData s)
     = createBooking_settle (Returned (snd (apiService_createBooking fetch1 formData)))
         (createBooking_start s)"
  "snd (useBooking_confirmBooking fetch2 uuid s)
     = confirmBooking_settle (Returned (snd (apiService_confirmBooking fetch2 uuid)))
         (confirmBooking_start s)"
  "snd (useBooking_updatePayment fetch2 uuid paymentData s)
     = updatePayment_settle (Returned (snd (apiService_updatePaymentStatus fetch2 uuid paymentData)))
         (updatePayment_start s)"
  "snd (useBooking_getBookingDetails fetch4 uuid s)
     = getBookingDetails_settle (Returned (snd (apiService_getBookingDetails fetch4 uuid)))
         (getBookingDetails_start s)"
  by (simp_all add: useBooking_createBooking_def useBooking_confirmBooking_def
      useBooking_updatePayment_def useBooking_getBookingDetails_def split: prod.splits)

text \<open>
  Claim C9: once createBooking, confirmBooking, updatePayment or getBookingDetails has
  completed, on success, on a failure response and on a thrown exception alike, loading
  is false, success implies that error is null, and a non-null error implies that
  success is false.
\<close>

theorem useBooking_settled:
  assumes "s' = createBooking_settle o1 prev \<or> s' = confirmBooking_settle o2 prev
         \<or> s' = updatePayment_settle o3 prev \<or> s' = getBookingDetails_settle o4 prev
         \<or> s' = snd (useBooking_createBooking fetch1 formData s)
         \<or> s' = snd (useBooking_confirmBooking fetch2 uuid s)
         \<or> s' = snd (useBooking_updatePayment fetch2 uuid paymentData s)
         \<or> s' = snd (useBooking_getBookingDetails fetch4 uuid s)"
  shows "\<not> ub_loading s' \<and> (ub_success s' \<longrightarrow> ub_error s' = None)
         \<and> (ub_error s' \<noteq> None \<longrightarrow> \<not> ub_success s')"
proof -
  have "\<not> ub_loading s' \<and> (ub_success s' \<longleftrightarrow> ub_error s' = None)"
    using assms unfolding useBooking_actions_settle
    using createBooking_settle_exclusive confirmBooking_settle_exclusive
      updatePayment_settle_exclusive getBookingDetails_settle_exclusive
    by metis
  then show ?thesis by simp
qed

theorem useBooking_settled_witness:
  "ub_success (confirmBooking_settle
       (Returned \<lparr>r_success = True, r_data = None, r_error = None, r_message = None\<rparr>)
       (confirmBooking_start useBooking_initial)) \<and>
   ub_error (confirmBooking_settle
       (Returned \<lparr>r_success = True, r_data = None, r_error = None, r_message = None\<rparr>)
       (confirmBooking_start useBooking_initial)) = None \<and>
   \<not> ub_loading (confirmBooking_settle
       (Returned \<lparr>r_success = True, r_data = None, r_error = None, r_message = None\<rparr>)
       (confirmBooking_start useBooking_initial)) \<and>
   ub_error (createBooking_settle (Threw JsOther) (createBooking_start useBooking_initial)) \<noteq> None \<and>
   \<not> ub_success (createBooking_settle (Threw JsOther) (createBooking_start useBooking_initial)) \<and>
   \<not> ub_loading (createBooking_settle (Threw JsOther) (createBooking_start useBooking_initial))"
proof -
  define ok where "ok = confirmBooking_settle
       (Returned \<lparr>r_success = True, r_data = None, r_error = None, r_message = None\<rparr>)
       (confirmBooking_start useBooking_initial)"
  define bad where
    "bad = createBooking_settle (Threw JsOther) (createBooking_start useBooking_initial)"
  have ok: "ub_success ok" by (simp add: ok_def confirmBooking_settle_def)
  have bad: "ub_error bad \<noteq> None" by (simp add: bad_def createBooking_settle_def)
  have 1: "\<not> ub_loading ok \<and> (ub_success ok \<longrightarrow> ub_error ok = None)
         \<and> (ub_error ok \<noteq> None \<longrightarrow> \<not> ub_success ok)"
    by (rule useBooking_settled [where ?o2.0 = "Returned \<lparr>r_success = True, r_data = None,
          r_error = None, r_message = None\<rparr>" and prev = "confirmBooking_start useBooking_initial"])
       (simp add: ok_def)
  have 2: "\<not> ub_loading bad \<and> (ub_success bad \<longrightarrow> ub_error bad = None)
         \<and> (ub_error bad \<noteq> None \<longrightarrow> \<not> ub_success bad)"
    by (rule useBooking_settled [where ?o1.0 = "Threw JsOther"
          and prev = "createBooking_start useBooking_initial"])
       (simp add: bad_def)
  from 1 ok have "ub_success ok \<and> ub_error ok = None \<and> \<not> ub_loading ok" by simp
  moreover from 2 bad have "ub_error bad \<noteq> None \<and> \<not> ub_success bad \<and> \<not> ub_loading bad" by simp
  ultimately show ?thesis unfolding ok_def bad_def by simp
qed

subsection \<open>trackEvent\<close>

text \<open>
  Claim C5: trackEvent never surfaces a failure. Whether the track request resolves or
  rejects, the promise of trackEvent resolves and the hook state (loading, error,
  preview, analytics) is the state it started from.
\<close>

theorem trackEvent_silent:
  "trackEvent_settle outcome s = Inr s \<and>
   snd (useMagicLink_trackEvent fetch magicLinkId eventData s) = Inr s"
  by (simp add: trackEvent_settle_def useMagicLink_trackEvent_def
      split: api_outcome.splits prod.splits)

theorem trackEvent_silent_witness:
  "trackEvent_settle (Threw (JsError (js ''Failed to fetch''))) useMagicLink_initial
     = Inr useMagicLink_initial \<and>
   snd (useMagicLink_trackEvent fetch_rejects_empty (js ''tok'')
          \<lparr>ev_event = js ''page_view'', ev_userAgent = None, ev_ipAddress = None,
           ev_metadata = None\<rparr> useMagicLink_initial)
     = Inr useMagicLink_initial"
  using trackEvent_silent [of "Threw (JsError (js ''Failed to fetch''))" useMagicLink_initial
      fetch_rejects_empty "js ''tok''"
      "\<lparr>ev_event = js ''page_view'', ev_userAgent = None, ev_ipAddress = None,
        ev_metadata = None\<rparr>"]
  by simp

subsection \<open>handleSubmit\<close>

lemma handleSubmit_calls:
  "fst (handleSubmit toISOString fetch formData s) =
     (if trim (f_userName formData) = [] \<or> trim (f_userPhone formData) = [] \<or>
         f_appointmentDate formData = [] then []
      else (case toISOString (f_appointmentDate formData) of
              None \<Rightarrow> []
            | Some isoDate \<Rightarrow>
               [\<lparr>fc_url = apiBaseUrl @ js ''/api/booking/create'',
                 fc_init = \<lparr>ri_method = Some (js ''POST''),
                   ri_body = Some (BookingBody (formData\<lparr>f_appointmentDate := isoDate\<rparr>)),
                   ri_headers = Some [(js ''Content-Type'', js ''application/json'')]\<rparr>\<rparr>]))"
  by (simp add: handleSubmit_def Let_def useBooking_createBooking_def
      apiService_createBooking_def request_as_declared_def request_call_def request_init_def
      split: option.splits)


text \<open>
  Claim C7: a submission whose userName or userPhone is empty or white space only, or
  whose appointmentDate is empty, makes no request; a request is made only when both
  contact fields are non-empty after trimming and a date is present, and it is then
  the one POST of the form data to /api/booking/create.
\<close>

theorem handleSubmit_validates:
  "((\<forall>c\<in>set (f_userName formData). isWhiteSpace c) \<or>
    (\<forall>c\<in>set (f_userPhone formData). isWhiteSpace c) \<or>
    f_appointmentDate formData = []
      \<longrightarrow> fst (handleSubmit toISOString fetch formData s) = []) \<and>
   (fst (handleSubmit toISOString fetch formData s) \<noteq> []
      \<longrightarrow> trim (f_userName formData) \<noteq> [] \<and> trim (f_userPhone formData) \<noteq> [] \<and>
          f_appointmentDate formData \<noteq> [] \<and>
          (\<exists>isoDate. toISOString (f_appointmentDate formData) = Some isoDate \<and>
             fst (handleSubmit toISOString fetch formData s) =
               [\<lparr>fc_url = apiBaseUrl @ js ''/api/booking/create'',
                 fc_init = \<lparr>ri_method = Some (js ''POST''),
                   ri_body = Some (BookingBody (formData\<lparr>f_appointmentDate := isoDate\<rparr>)),
                   ri_headers = Some [(js ''Content-Type'', js ''application/json'')]\<rparr>\<rparr>]))"
  unfolding handleSubmit_calls trim_eq_Nil [symmetric]
  by (cases "toISOString (f_appointmentDate formData)") simp_all

theorem handleSubmit_validates_witness:
  "trim (f_userName (form_after (js ''2025-03-01T10:00'')
        [UserNameInput (js ''  ''), UserPhoneInput (js ''+15551234567'')])) = [] \<and>
   fst (handleSubmit (\<lambda>d. Some (d @ js '':00.000Z'')) fetch_succeeds
     (form_after (js ''2025-03-01T10:00'')
        [UserNameInput (js ''  ''), UserPhoneInput (js ''+15551234567'')])
     useBooking_initial) = [] \<and>
   fst (handleSubmit (\<lambda>d. Some (d @ js '':00.000Z'')) fetch_succeeds
     (form_after (js ''2025-03-01T10:00'')
        [UserNameInput (js ''Jane Doe''), UserPhoneInput (js ''+15551234567'')])
     useBooking_initial) \<noteq> [] \<and>
   trim (f_userName (form_after (js ''2025-03-01T10:00'')
        [UserNameInput (js ''Jane Doe''), UserPhoneInput (js ''+15551234567'')])) \<noteq> []"
proof -
  define blank where "blank = form_after (js ''2025-03-01T10:00'')
        [UserNameInput (js ''  ''), UserPhoneInput (js ''+15551234567'')]"
  define filled where "filled = form_after (js ''2025-03-01T10:00'')
        [UserNameInput (js ''Jane Doe''), UserPhoneInput (js ''+15551234567'')]"
  define toISO :: "jsstring \<Rightarrow> jsstring option" where "toISO = (\<lambda>d. Some (d @ js '':00.000Z''))"
  have name_blank: "f_userName blank = js ''  ''"
    by (simp add: blank_def form_after_def handleInputChange_def)
  have ws: "\<forall>c\<in>set (f_userName blank). isWhiteSpace c"
    unfolding name_blank by (simp add: js_Cons isWhiteSpace_def)
  have none: "fst (handleSubmit toISO fetch_succeeds blank useBooking_initial) = []"
    using handleSubmit_validates [of blank toISO fetch_succeeds useBooking_initial] ws
    by blast
  have name_filled: "f_userName filled = js ''Jane Doe''" "f_userPhone filled = js ''+15551234567''"
    "f_appointmentDate filled = js ''2025-03-01T10:00''"
    by (simp_all add: filled_def form_after_def handleInputChange_def BookingForm_initial_def)
  have sent: "fst (handleSubmit toISO fetch_succeeds filled useBooking_initial) \<noteq> []"
    unfolding handleSubmit_calls name_filled toISO_def
    by (simp add: trim_def js_Cons isWhiteSpace_def)
  have "trim (f_userName filled) \<noteq> []"
    using handleSubmit_validates [of filled toISO fetch_succeeds useBooking_initial] sent
    by blast
  moreover have "trim (f_userName blank) = []"
    using ws by (simp add: trim_eq_Nil)
  ultimately show ?thesis using none sent unfolding blank_def filled_def toISO_def by blast
qed

subsection \<open>ApiService.request\<close>

lemma thrown_message_nonempty: "e \<noteq> JsError [] \<Longrightarrow> thrown_message e \<noteq> []"
  by (cases e) (simp_all add: thrown_message_def)

lemma response_keys:
  "js ''error'' \<noteq> js ''success''" "js ''message'' \<noteq> js ''success''"
  "js ''message'' \<noteq> js ''error''" "js ''error'' \<noteq> js ''data''"
  "js ''success'' \<noteq> js ''error''" "js ''success'' \<noteq> js ''message''"
  "js ''error'' \<noteq> js ''message''" "js ''data'' \<noteq> js ''error''"
  by (simp_all add: js_Cons)

lemma catch_object_is_ApiResponse: "is_ApiResponse (catch_object e)"
  by (simp add: catch_object_def response_keys)

lemma status_message_nonempty: "js (''HTTP error! status: '' @ show_nat n) \<noteq> []"
  by simp

lemma request_calls:
  "fst (ApiService_request en fetch endpoint options) = [request_call endpoint options]"
  by (simp add: ApiService_request_def Let_def)

lemma request_rejected:
  "fetch (request_call endpoint options) = Rejects e \<Longrightarrow>
     snd (ApiService_request en fetch endpoint options) = catch_object e"
  by (simp add: ApiService_request_def Let_def)

lemma request_unparsed:
  "fetch (request_call endpoint options) = Resolves response \<Longrightarrow> rw_json response = Inl e \<Longrightarrow>
     snd (ApiService_request en fetch endpoint options) = catch_object e"
  by (simp add: ApiService_request_def Let_def)

lemma request_not_ok:
  "fetch (request_call endpoint options) = Resolves response \<Longrightarrow> rw_json response = Inr data \<Longrightarrow>
   \<not> rw_ok response \<Longrightarrow>
     snd (ApiService_request en fetch endpoint options) =
       catch_object (not_ok_thrown en data (rw_status response))"
  by (simp add: ApiService_request_def Let_def)

lemma request_ok:
  "fetch (request_call endpoint options) = Resolves response \<Longrightarrow> rw_json response = Inr data \<Longrightarrow>
   rw_ok response \<Longrightarrow> snd (ApiService_request en fetch endpoint options) = data"
  by (simp add: ApiService_request_def Let_def)

lemma not_ok_thrown_absent:
  "data_error en data = Inr None \<or> (data_error en data = Inr (Some x) \<and> \<not> is_truthy x) \<Longrightarrow>
     not_ok_thrown en data status = JsError (js (''HTTP error! status: '' @ show_nat status))"
  by (auto simp: not_ok_thrown_def)

lemma not_ok_thrown_string:
  "data_error en data = Inr (Some (JStr s)) \<Longrightarrow> s \<noteq> [] \<Longrightarrow>
     not_ok_thrown en data status = JsError s"
  by (simp add: not_ok_thrown_def)

lemma not_ok_thrown_converted:
  "data_error en data = Inr (Some x) \<Longrightarrow> is_truthy x \<Longrightarrow> to_string en x = Inr m \<Longrightarrow>
     not_ok_thrown en data status = JsError m"
  by (simp add: not_ok_thrown_def)

lemma not_ok_thrown_conversion_throws:
  "data_error en data = Inr (Some x) \<Longrightarrow> is_truthy x \<Longrightarrow> to_string en x = Inl e \<Longrightarrow>
     not_ok_thrown en data status = e"
  by (simp add: not_ok_thrown_def)

lemma not_ok_thrown_read_throws:
  "data_error en data = Inl e \<Longrightarrow> not_ok_thrown en data status = e"
  by (simp add: not_ok_thrown_def)

text \<open>
  The request at its declared type is the request as it runs, on the answers whose body
  is an ApiResponse.
\<close>

lemma not_ok_thrown_encoded:
  "not_ok_thrown en (encode_ApiResponse enc r) status =
     JsError (or_else (r_error r) (js (''HTTP error! status: '' @ show_nat status)))"
  by (cases "r_data r"; cases "r_error r"; cases "r_message r")
     (simp_all add: not_ok_thrown_def encode_ApiResponse_def or_else_def response_keys)

lemma catch_object_encoded: "encode_ApiResponse enc (request_catch e) = catch_object e"
  by (simp add: encode_ApiResponse_def request_catch_def catch_object_def thrown_message_def)

lemma request_as_declared_refines:
  assumes "raw (request_call endpoint options)
             = encode_result enc (typed (request_call endpoint options))"
  shows "ApiService_request en raw endpoint options =
           (fst (request_as_declared typed endpoint options),
            encode_ApiResponse enc (snd (request_as_declared typed endpoint options)))"
proof (cases "typed (request_call endpoint options)")
  case (Rejected e)
  with assms show ?thesis
    by (simp add: ApiService_request_def request_as_declared_def encode_result_def Let_def
        catch_object_encoded)
next
  case (Resolved response)
  show ?thesis
  proof (cases "rs_json response")
    case (Inl e)
    with assms Resolved show ?thesis
      by (simp add: ApiService_request_def request_as_declared_def encode_result_def Let_def
          catch_object_encoded)
  next
    case (Inr parsed)
    with assms Resolved show ?thesis
      by (simp add: ApiService_request_def request_as_declared_def encode_result_def Let_def
          catch_object_encoded not_ok_thrown_encoded)
  qed
qed

text \<open>
  Claim C4, amended: for every endpoint and options, ApiService.request makes one fetch
  call and its promise never rejects. When fetch fails, or the body cannot be parsed
  whatever the HTTP status, it returns the object with success false and as error the
  message of the thrown Error, or 'Unknown error occurred' for a thrown value that is no
  Error; this object is an ApiResponse, and its error is non-empty unless the thrown
  Error has the empty message. When the body parses and the status is not ok, it returns
  the same kind of object: its error is 'HTTP error! status: N' when the body has no
  error entry or a falsy one, and the entry itself when that is a non-empty string, both
  non-empty; for any other truthy entry it is the entry converted to a string, and when
  the body is null or the conversion throws it is the message of that TypeError. When
  the body parses and the status is ok, the parsed body is returned as it is, unchecked.
\<close>

theorem request_failure_response:
  "fst (ApiService_request en fetch endpoint options) = [request_call endpoint options] \<and>
   (catch_object e = JObj [(js ''success'', JBool False), (js ''error'', JStr (thrown_message e))] \<and>
    thrown_message e =
      (case e of JsError msg \<Rightarrow> msg | JsOther \<Rightarrow> js ''Unknown error occurred'')) \<and>
   is_ApiResponse (catch_object e) \<and>
   (fetch (request_call endpoint options) = Rejects e \<or>
    (fetch (request_call endpoint options) = Resolves response \<and> rw_json response = Inl e)
      \<longrightarrow> snd (ApiService_request en fetch endpoint options) = catch_object e \<and>
          (e \<noteq> JsError [] \<longrightarrow> thrown_message e \<noteq> [])) \<and>
   (fetch (request_call endpoint options) = Resolves response \<and> rw_json response = Inr data \<and>
    \<not> rw_ok response
      \<longrightarrow> snd (ApiService_request en fetch endpoint options) =
            catch_object (not_ok_thrown en data (rw_status response)) \<and>
          (data_error en data = Inr None \<or>
           (data_error en data = Inr (Some x) \<and> \<not> is_truthy x)
             \<longrightarrow> not_ok_thrown en data (rw_status response) =
                   JsError (js (''HTTP error! status: '' @ show_nat (rw_status response))) \<and>
                 js (''HTTP error! status: '' @ show_nat (rw_status response)) \<noteq> []) \<and>
          (data_error en data = Inr (Some (JStr s)) \<and> s \<noteq> []
             \<longrightarrow> not_ok_thrown en data (rw_status response) = JsError s) \<and>
          (data_error en data = Inr (Some x) \<and> is_truthy x \<and> to_string en x = Inr m
             \<longrightarrow> not_ok_thrown en data (rw_status response) = JsError m) \<and>
          (data_error en data = Inr (Some x) \<and> is_truthy x \<and> to_string en x = Inl e'
             \<longrightarrow> not_ok_thrown en data (rw_status response) = e') \<and>
          (data_error en data = Inl e'
             \<longrightarrow> not_ok_thrown en data (rw_status response) = e')) \<and>
   (fetch (request_call endpoint options) = Resolves response \<and> rw_json response = Inr data \<and>
    rw_ok response
      \<longrightarrow> snd (ApiService_request en fetch endpoint options) = data)"
proof -
  have 1: "fst (ApiService_request en fetch endpoint options) = [request_call endpoint options]"
    by (rule request_calls)
  have 2: "(catch_object e = JObj [(js ''success'', JBool False), (js ''error'', JStr (thrown_message e))] \<and>
    thrown_message e =
      (case e of JsError msg \<Rightarrow> msg | JsOther \<Rightarrow> js ''Unknown error occurred''))"
    by (simp add: catch_object_def thrown_message_def)
  have 3: "is_ApiResponse (catch_object e)"
    by (rule catch_object_is_ApiResponse)
  have 4: "fetch (request_call endpoint options) = Rejects e \<or>
    (fetch (request_call endpoint options) = Resolves response \<and> rw_json response = Inl e)
      \<longrightarrow> snd (ApiService_request en fetch endpoint options) = catch_object e \<and>
          (e \<noteq> JsError [] \<longrightarrow> thrown_message e \<noteq> [])"
    using request_rejected [of fetch endpoint options e en]
      request_unparsed [of fetch endpoint options response e en]
      thrown_message_nonempty [of e]
    by blast
  have 5: "fetch (request_call endpoint options) = Resolves response \<and> rw_json response = Inr data \<and>
    \<not> rw_ok response
      \<longrightarrow> snd (ApiService_request en fetch endpoint options) =
            catch_object (not_ok_thrown en data (rw_status response)) \<and>
          (data_error en data = Inr None \<or>
           (data_error en data = Inr (Some x) \<and> \<not> is_truthy x)
             \<longrightarrow> not_ok_thrown en data (rw_status response) =
                   JsError (js (''HTTP error! status: '' @ show_nat (rw_status response))) \<and>
                 js (''HTTP error! status: '' @ show_nat (rw_status response)) \<noteq> []) \<and>
          (data_error en data = Inr (Some (JStr s)) \<and> s \<noteq> []
             \<longrightarrow> not_ok_thrown en data (rw_status response) = JsError s) \<and>
          (data_error en data = Inr (Some x) \<and> is_truthy x \<and> to_string en x = Inr m
             \<longrightarrow> not_ok_thrown en data (rw_status response) = JsError m) \<and>
          (data_error en data = Inr (Some x) \<and> is_truthy x \<and> to_string en x = Inl e'
             \<longrightarrow> not_ok_thrown en data (rw_status response) = e') \<and>
          (data_error en data = Inl e'
             \<longrightarrow> not_ok_thrown en data (rw_status response) = e')"
    using request_not_ok [of fetch endpoint options response data en]
      not_ok_thrown_absent [of en data x "rw_status response"]
      not_ok_thrown_string [of en data s "rw_status response"]
      not_ok_thrown_converted [of en data x m "rw_status response"]
      not_ok_thrown_conversion_throws [of en data x e' "rw_status response"]
      not_ok_thrown_read_throws [of en data e' "rw_status response"]
      status_message_nonempty [of "rw_status response"]
    by blast
  have 6: "fetch (request_call endpoint options) = Resolves response \<and> rw_json response = Inr data \<and>
    rw_ok response
      \<longrightarrow> snd (ApiService_request en fetch endpoint options) = data"
    using request_ok [of fetch endpoint options response data en] by blast
  show ?thesis
    by (rule conjI [OF 1 conjI [OF 2 conjI [OF 3 conjI [OF 4 conjI [OF 5 6]]]]])
qed

text \<open>
  The claim as stated asks for an ApiResponse with a non-empty error message on every
  failure. A fetch that rejects with an Error of empty message gives the empty string
  as error; so does status 500 with the body {"error": []}, the empty array being
  truthy and converting to the empty string; and status 200 with the body null returns
  null, which is no ApiResponse.
\<close>

theorem request_empty_message_counterexample:
  "snd (ApiService_request engine_wording platform_rejects_empty (js ''/health'') no_options)
     = JObj [(js ''success'', JBool False), (js ''error'', JStr [])] \<and>
   snd (ApiService_request engine_wording platform_error_array (js ''/health'') no_options)
     = JObj [(js ''success'', JBool False), (js ''error'', JStr [])] \<and>
   snd (ApiService_request engine_wording platform_ok_null (js ''/health'') no_options) = JNull \<and>
   \<not> is_ApiResponse JNull"
  by (simp add: ApiService_request_def platform_rejects_empty_def platform_error_array_def
      platform_ok_null_def catch_object_def thrown_message_def not_ok_thrown_def Let_def)

theorem request_failure_response_witness:
  "snd (ApiService_request engine_wording platform_fails (js ''/health'') no_options)
     = JObj [(js ''success'', JBool False), (js ''error'', JStr (js ''Failed to fetch''))] \<and>
   snd (ApiService_request engine_wording platform_bad_gateway (js ''/health'') no_options)
     = JObj [(js ''success'', JBool False),
             (js ''error'', JStr (js ''Unexpected token < in JSON at position 0''))] \<and>
   snd (ApiService_request engine_wording platform_not_found (js ''/health'') no_options)
     = JObj [(js ''success'', JBool False), (js ''error'', JStr (js ''Booking not found''))] \<and>
   snd (ApiService_request engine_wording platform_server_error (js ''/health'') no_options)
     = JObj [(js ''success'', JBool False),
             (js ''error'', JStr (js ''HTTP error! status: 500''))] \<and>
   snd (ApiService_request engine_wording platform_ok_null (js ''/health'') no_options) = JNull"
proof -
  let ?call = "request_call (js ''/health'') no_options"
  have status: "show_nat 500 = ''500''"
    by (simp add: show_nat.simps)
  have fails: "platform_fails ?call = Rejects (JsError (js ''Failed to fetch''))"
    by (simp add: platform_fails_def)
  have 1: "snd (ApiService_request engine_wording platform_fails (js ''/health'') no_options)
     = JObj [(js ''success'', JBool False), (js ''error'', JStr (js ''Failed to fetch''))]"
    using request_failure_response [of engine_wording platform_fails "js ''/health''" no_options
        "JsError (js ''Failed to fetch'')"] fails
    by simp
  let ?gateway = "\<lparr>rw_ok = False, rw_status = 502,
       rw_json = Inl (JsError (js ''Unexpected token < in JSON at position 0''))\<rparr>"
  have 2: "snd (ApiService_request engine_wording platform_bad_gateway (js ''/health'') no_options)
     = JObj [(js ''success'', JBool False),
             (js ''error'', JStr (js ''Unexpected token < in JSON at position 0''))]"
    using request_failure_response [of engine_wording platform_bad_gateway "js ''/health''"
        no_options "JsError (js ''Unexpected token < in JSON at position 0'')" ?gateway]
    by (simp add: platform_bad_gateway_def)
  let ?body = "JObj [(js ''success'', JBool False), (js ''error'', JStr (js ''Booking not found''))]"
  let ?missing = "\<lparr>rw_ok = False, rw_status = 404, rw_json = Inr ?body\<rparr>"
  have 3: "snd (ApiService_request engine_wording platform_not_found (js ''/health'') no_options)
     = JObj [(js ''success'', JBool False), (js ''error'', JStr (js ''Booking not found''))]"
    using request_failure_response [where en = engine_wording and fetch = platform_not_found
        and endpoint = "js ''/health''" and options = no_options and response = ?missing
        and data = ?body and s = "js ''Booking not found''"
        and e = "JsError (js ''Booking not found'')"]
    by (simp add: platform_not_found_def response_keys)
  let ?broken = "\<lparr>rw_ok = False, rw_status = 500, rw_json = Inr (JObj [])\<rparr>"
  have 4: "snd (ApiService_request engine_wording platform_server_error (js ''/health'') no_options)
     = JObj [(js ''success'', JBool False),
             (js ''error'', JStr (js ''HTTP error! status: 500''))]"
    using request_failure_response [where en = engine_wording and fetch = platform_server_error
        and endpoint = "js ''/health''" and options = no_options and response = ?broken
        and data = "JObj []" and e = "JsError (js ''HTTP error! status: 500'')"]
    by (simp add: platform_server_error_def status)
  have 5: "snd (ApiService_request engine_wording platform_ok_null (js ''/health'') no_options)
     = JNull"
    using request_failure_response [where en = engine_wording and fetch = platform_ok_null
        and endpoint = "js ''/health''" and options = no_options
        and response = "\<lparr>rw_ok = True, rw_status = 200, rw_json = Inr JNull\<rparr>"
        and data = JNull]
    by (simp add: platform_ok_null_def)
  show ?thesis by (rule conjI [OF 1 conjI [OF 2 conjI [OF 3 conjI [OF 4 5]]]])
qed

subsection \<open>Payment statuses\<close>

lemma UNIV_PaymentUpdateStatus: "UNIV = {PU_pending, PU_completed, PU_failed, PU_refunded}"
  by (auto intro: PaymentUpdateStatus.exhaust)

lemma UNIV_PaymentStatus:
  "UNIV = {PS_pending, PS_processing, PS_completed, PS_failed, PS_refunded}"
  by (auto intro: PaymentStatus.exhaust)

lemma handlePaymentUpdate_calls:
  "h_calls (handlePaymentUpdate fetch now uuid status s) =
     (case uuid of
        None \<Rightarrow> []
      | Some u \<Rightarrow>
          if u = [] then []
          else [\<lparr>fc_url = apiBaseUrl @ js ''/api/booking/payment/'' @ u,
                 fc_init = \<lparr>ri_method = Some (js ''PUT''),
                   ri_body = Some (PaymentBody
                     \<lparr>pu_paymentStatus =
                        (case status of completed_mark \<Rightarrow> PU_completed
                                      | failed_mark \<Rightarrow> PU_failed),
                      pu_paymentId = Some (js (''payment_'' @ show_nat now)),
                      pu_amount =
                        (case status of completed_mark \<Rightarrow> Some 100 | failed_mark \<Rightarrow> None),
                      pu_currency =
                        (case status of completed_mark \<Rightarrow> Some (js ''USD'')
                                      | failed_mark \<Rightarrow> None)\<rparr>),
                   ri_headers = Some [(js ''Content-Type'', js ''application/json'')]\<rparr>\<rparr>])"
  by (simp add: handlePaymentUpdate_def unhandled_def useBooking_updatePayment_def
      apiService_updatePaymentStatus_def request_as_declared_def request_call_def
      request_init_def Let_def split: option.splits)

lemma handlePaymentUpdate_statuses: "\<forall>c\<in>set (h_calls (handlePaymentUpdate fetch now uuid status s)).
      \<exists>p. ri_body (fc_init c) = Some (PaymentBody p) \<and>
          PaymentUpdateStatus_literal (pu_paymentStatus p) \<in> {''completed'', ''failed''}"
proof (cases uuid)
  case None
  then show ?thesis by (simp add: handlePaymentUpdate_calls)
next
  case (Some u)
  show ?thesis
  proof (cases "u = []")
    case True
    with Some show ?thesis by (simp add: handlePaymentUpdate_calls)
  next
    case False
    with Some show ?thesis
      by (cases status) (simp_all add: handlePaymentUpdate_calls)
  qed
qed

text \<open>
  Claim C2, amended: the paymentStatus of a payment update request is one of pending,
  completed, failed and refunded, each of them a member of the five-valued enumeration
  of payment statuses; processing is a payment status of a booking and is not a value
  of a payment update request. The updates the booking details view sends carry
  completed or failed.
\<close>

theorem payment_update_statuses:
  "range PaymentUpdateStatus_literal = {''pending'', ''completed'', ''failed'', ''refunded''} \<and>
   range PaymentStatus_literal
     = {''pending'', ''processing'', ''completed'', ''failed'', ''refunded''} \<and>
   range PaymentUpdateStatus_literal \<subseteq> range PaymentStatus_literal \<and>
   (\<forall>c\<in>set (h_calls (handlePaymentUpdate fetch now uuid status s)).
      \<exists>p. ri_body (fc_init c) = Some (PaymentBody p) \<and>
          PaymentUpdateStatus_literal (pu_paymentStatus p) \<in> {''completed'', ''failed''})"
proof -
  have 1: "range PaymentUpdateStatus_literal = {''pending'', ''completed'', ''failed'', ''refunded''}"
    unfolding UNIV_PaymentUpdateStatus by simp
  have 2: "range PaymentStatus_literal
     = {''pending'', ''processing'', ''completed'', ''failed'', ''refunded''}"
    unfolding UNIV_PaymentStatus by simp
  have 3: "range PaymentUpdateStatus_literal \<subseteq> range PaymentStatus_literal"
    unfolding 1 2 by simp
  show ?thesis
    by (rule conjI [OF 1 conjI [OF 2 conjI [OF 3 handlePaymentUpdate_statuses]]])
qed

text \<open>
  The claim as stated makes each of the five values a paymentStatus of a payment update
  request; processing is none.
\<close>

theorem processing_not_representable_counterexample:
  "PaymentStatus_literal PS_processing = ''processing'' \<and>
   ''processing'' \<notin> range PaymentUpdateStatus_literal"
  unfolding UNIV_PaymentUpdateStatus by simp

theorem payment_update_statuses_witness:
  "''completed'' \<in> range PaymentUpdateStatus_literal \<and>
   ''completed'' \<in> range PaymentStatus_literal \<and>
   h_calls (handlePaymentUpdate (fetch_succeeds :: any fetch) 1740823200000 (Some (js ''u1''))
      completed_mark useBooking_initial) =
     [\<lparr>fc_url = apiBaseUrl @ js ''/api/booking/payment/u1'',
       fc_init = \<lparr>ri_method = Some (js ''PUT''),
         ri_body = Some (PaymentBody
           \<lparr>pu_paymentStatus = PU_completed,
            pu_paymentId = Some (js ''payment_1740823200000''),
            pu_amount = Some 100, pu_currency = Some (js ''USD'')\<rparr>),
         ri_headers = Some [(js ''Content-Type'', js ''application/json'')]\<rparr>\<rparr>]"
proof -
  note inst = payment_update_statuses [of "fetch_succeeds :: any fetch" 1740823200000
        "Some (js ''u1'')" completed_mark useBooking_initial]
  have vals: "range PaymentUpdateStatus_literal
      = {''pending'', ''completed'', ''failed'', ''refunded''}"
    by (rule conjunct1 [OF inst])
  have incl: "range PaymentUpdateStatus_literal \<subseteq> range PaymentStatus_literal"
    by (rule conjunct1 [OF conjunct2 [OF conjunct2 [OF inst]]])
  have 1: "''completed'' \<in> range PaymentUpdateStatus_literal"
    unfolding vals by simp
  have 2: "''completed'' \<in> range PaymentStatus_literal"
    using 1 incl by (rule subsetD [rotated])
  have now: "show_nat 1740823200000 = ''1740823200000''"
    by (simp add: show_nat.simps)
  have 3: "h_calls (handlePaymentUpdate (fetch_succeeds :: any fetch) 1740823200000
      (Some (js ''u1'')) completed_mark useBooking_initial) =
     [\<lparr>fc_url = apiBaseUrl @ js ''/api/booking/payment/u1'',
       fc_init = \<lparr>ri_method = Some (js ''PUT''),
         ri_body = Some (PaymentBody
           \<lparr>pu_paymentStatus = PU_completed,
            pu_paymentId = Some (js ''payment_1740823200000''),
            pu_amount = Some 100, pu_currency = Some (js ''USD'')\<rparr>),
         ri_headers = Some [(js ''Content-Type'', js ''application/json'')]\<rparr>\<rparr>]"
    unfolding handlePaymentUpdate_calls now by (simp add: js_Cons)
  show ?thesis by (rule conjI [OF 1 conjI [OF 2 3]])
qed

subsection \<open>Appointment types\<close>

lemma UNIV_AppointmentType:
  "UNIV = {CONSULTATION, TUTORIAL, ASSESSMENT, GROUP_SESSION, WORKSHOP}"
  by (auto intro: AppointmentType.exhaust)

lemma onChange_appointmentType:
  "f_appointmentType d \<in> set appointmentType_options \<Longrightarrow>
     f_appointmentType (onChange e d) \<in> set appointmentType_options"
  by (cases e) (simp_all add: handleInputChange_def handleBookingDetailsChange_def)

lemma foldl_onChange_appointmentType:
  "f_appointmentType d \<in> set appointmentType_options \<Longrightarrow>
     f_appointmentType (foldl (\<lambda>d e. onChange e d) d events) \<in> set appointmentType_options"
  by (induction events arbitrary: d) (simp_all add: onChange_appointmentType)

lemma form_after_appointmentType:
  "f_appointmentType (form_after today events) \<in> set appointmentType_options"
  unfolding form_after_def
  by (rule foldl_onChange_appointmentType)
     (simp add: BookingForm_initial_def appointmentType_options_def)

text \<open>
  Claim C3, amended: every appointmentType is one of the five strings CONSULTATION,
  TUTORIAL, ASSESSMENT, GROUP_SESSION and WORKSHOP, in upper case. These are the
  members of the type AppointmentType and the option values of the form; whatever
  change events the form receives, its appointmentType is one of them, and so is the
  appointmentType of any creation request it submits.
\<close>

theorem appointmentType_values:
  "range AppointmentType_literal
     = {''CONSULTATION'', ''TUTORIAL'', ''ASSESSMENT'', ''GROUP_SESSION'', ''WORKSHOP''} \<and>
   set appointmentType_options = js ` range AppointmentType_literal \<and>
   f_appointmentType (form_after today events) \<in> set appointmentType_options \<and>
   (\<forall>c\<in>set (fst (handleSubmit toISOString fetch (form_after today events) s)).
      \<exists>t. submitted_appointmentType c = Some (js (AppointmentType_literal t)))"
proof -
  have 1: "range AppointmentType_literal
     = {''CONSULTATION'', ''TUTORIAL'', ''ASSESSMENT'', ''GROUP_SESSION'', ''WORKSHOP''}"
    unfolding UNIV_AppointmentType by simp
  have 2: "set appointmentType_options = js ` range AppointmentType_literal"
    unfolding 1 by (simp add: appointmentType_options_def)
  have 3: "f_appointmentType (form_after today events) \<in> set appointmentType_options"
    by (rule form_after_appointmentType)
  have 4: "\<forall>c\<in>set (fst (handleSubmit toISOString fetch (form_after today events) s)).
      \<exists>t. submitted_appointmentType c = Some (js (AppointmentType_literal t))"
  proof
    fix c
    assume c: "c \<in> set (fst (handleSubmit toISOString fetch (form_after today events) s))"
    then have "submitted_appointmentType c = Some (f_appointmentType (form_after today events))"
      unfolding handleSubmit_calls
      by (auto simp: submitted_appointmentType_def split: if_splits option.splits)
    moreover obtain t where "f_appointmentType (form_after today events) = js (AppointmentType_literal t)"
      using 3 unfolding 2 by blast
    ultimately show "\<exists>t. submitted_appointmentType c = Some (js (AppointmentType_literal t))"
      by auto
  qed
  show ?thesis by (rule conjI [OF 1 conjI [OF 2 conjI [OF 3 4]]])
qed

text \<open>
  The claim as stated names the lower-case strings. The form with a name and a phone
  number typed in submits CONSULTATION, which is none of them.
\<close>

theorem lowercase_appointmentType_counterexample:
  "map submitted_appointmentType
      (fst (handleSubmit toISOString_utc (fetch_succeeds :: BookingResponse fetch) form_filled
              useBooking_initial))
     = [Some (js ''CONSULTATION'')] \<and>
   js ''CONSULTATION''
     \<notin> js ` {''consultation'', ''tutorial'', ''assessment'', ''group_session'', ''workshop''}"
proof -
  have fields: "f_userName form_filled = js ''Jane Doe''"
    "f_userPhone form_filled = js ''+15551234567''"
    "f_appointmentDate form_filled = js ''2025-03-01T10:00''"
    "f_appointmentType form_filled = js ''CONSULTATION''"
    by (simp_all add: form_filled_def form_after_def handleInputChange_def BookingForm_initial_def)
  have "map submitted_appointmentType
      (fst (handleSubmit toISOString_utc (fetch_succeeds :: BookingResponse fetch) form_filled
              useBooking_initial))
     = [Some (js ''CONSULTATION'')]"
    unfolding handleSubmit_calls fields toISOString_utc_def
    by (simp add: trim_def js_Cons isWhiteSpace_def submitted_appointmentType_def fields)
  moreover have "js ''CONSULTATION''
     \<notin> js ` {''consultation'', ''tutorial'', ''assessment'', ''group_session'', ''workshop''}"
    by (simp add: js_Cons)
  ultimately show ?thesis by (rule conjI)
qed

theorem appointmentType_values_witness:
  "f_appointmentType
     (form_after (js ''2025-03-01T10:00'')
        [UserNameInput (js ''Jane Doe''), AppointmentTypeSelect 3, AppointmentTypeSelect 9])
     = js ''GROUP_SESSION'' \<and>
   js ''GROUP_SESSION'' = js (AppointmentType_literal GROUP_SESSION) \<and>
   f_appointmentType
     (form_after (js ''2025-03-01T10:00'')
        [UserNameInput (js ''Jane Doe''), AppointmentTypeSelect 3, AppointmentTypeSelect 9])
     \<in> set appointmentType_options"
proof -
  let ?events = "[UserNameInput (js ''Jane Doe''), AppointmentTypeSelect 3, AppointmentTypeSelect 9]"
  have "f_appointmentType (form_after (js ''2025-03-01T10:00'') ?events) = js ''GROUP_SESSION''"
    by (simp add: form_after_def handleInputChange_def BookingForm_initial_def
        appointmentType_options_def)
  moreover have "f_appointmentType (form_after (js ''2025-03-01T10:00'') ?events)
      \<in> set appointmentType_options"
    using appointmentType_values [of "js ''2025-03-01T10:00''" ?events] by (rule conjunct1 [OF conjunct2 [OF conjunct2]])
  ultimately show ?thesis by simp
qed

subsection \<open>Status transitions\<close>

lemma transition_status_cases:
  assumes "getById st i = Some b"
  shows "transition_status st i target now =
     (if bk_status b = confirmed \<and> target = confirmed then (Inr b, st)
      else if status_edge (bk_status b) target then
        (Inr (b\<lparr>bk_status := target,
                 bk_confirmedAt := (if target = confirmed then Some now else bk_confirmedAt b)\<rparr>),
         store_write st (b\<lparr>bk_status := target,
                 bk_confirmedAt := (if target = confirmed then Some now else bk_confirmedAt b)\<rparr>))
      else (Inl InvalidStateTransition, st))"
  using assms by (simp add: transition_status_def Let_def)

lemma status_edge_terminal:
  "s = completed \<or> s = cancelled \<Longrightarrow> \<not> status_edge s t"
  by (cases t) auto

lemma transition_moves_along_graph:
  assumes "getById st i = Some b" and "fst (transition_status st i target now) = Inr b'"
  shows "bk_status b' = target \<and>
         (bk_status b' = bk_status b \<or> status_edge (bk_status b) (bk_status b'))"
  using assms(2) unfolding transition_status_cases [OF assms(1)]
  by (auto split: if_splits)

lemma transition_illegal:
  assumes "getById st i = Some b" and "\<not> status_edge (bk_status b) target"
    and "\<not> (bk_status b = confirmed \<and> target = confirmed)"
  shows "transition_status st i target now = (Inl InvalidStateTransition, st)"
  using assms(2,3) unfolding transition_status_cases [OF assms(1)] by simp

lemma transition_failure_unchanged:
  assumes "fst (transition_status st i target now) = Inl e"
  shows "snd (transition_status st i target now) = st"
proof (cases "getById st i")
  case None
  then show ?thesis by (simp add: transition_status_def)
next
  case (Some b)
  show ?thesis using assms unfolding transition_status_cases [OF Some]
    by (auto split: if_splits)
qed

lemma transition_store:
  assumes "getById st i = Some b" and "fst (transition_status st i target now) = Inr b'"
  shows "snd (transition_status st i target now) = st \<or>
         snd (transition_status st i target now) = store_write st b'"
  using assms(2) unfolding transition_status_cases [OF assms(1)]
  by (auto split: if_splits)

lemma method_distinct: "js ''PUT'' \<noteq> js ''POST''"
  by (simp add: js_Cons)

lemma handleConfirmBooking_calls:
  "h_calls (handleConfirmBooking fetch uuid s) =
     (case uuid of
        None \<Rightarrow> []
      | Some u \<Rightarrow>
          if u \<noteq> [] \<and>
             map_option bd_status (ub_bookingDetails s) = Some (js ''pending_confirmation'')
          then [\<lparr>fc_url = apiBaseUrl @ js ''/api/booking/confirm/'' @ u,
                 fc_init = \<lparr>ri_method = Some (js ''POST''), ri_body = None,
                   ri_headers = Some [(js ''Content-Type'', js ''application/json'')]\<rparr>\<rparr>]
          else [])"
  by (cases uuid; cases "ub_bookingDetails s")
     (simp_all add: handleConfirmBooking_def unhandled_def useBooking_confirmBooking_def
        apiService_confirmBooking_def request_as_declared_def request_call_def
        request_init_def Let_def)

lemma handleConfirmBooking_guard:
  assumes "c \<in> set (h_calls (handleConfirmBooking fetch uuid s))"
  shows "is_confirm_request c \<and> \<not> is_payment_request c \<and>
         map_option bd_status (ub_bookingDetails s) = Some (js ''pending_confirmation'')"
  using assms unfolding handleConfirmBooking_calls
  by (auto simp: is_confirm_request_def is_payment_request_def method_distinct [symmetric]
      split: option.splits if_splits)

lemma handlePaymentUpdate_request:
  assumes "c \<in> set (h_calls (handlePaymentUpdate fetch now uuid status s))"
  shows "is_payment_request c \<and> \<not> is_confirm_request c"
  using assms unfolding handlePaymentUpdate_calls
  by (auto simp: is_confirm_request_def is_payment_request_def method_distinct
      split: option.splits if_splits)

lemma action_buttons_confirm:
  "(ConfirmBookingButton, d) \<in> set (action_buttons s paymentLoading) \<Longrightarrow>
     map_option bd_status (ub_bookingDetails s) = Some (js ''pending_confirmation'')"
  by (cases "ub_bookingDetails s") (auto simp: action_buttons_def split: if_splits)

lemma action_buttons_payment:
  "(MarkPaidButton, d) \<in> set (action_buttons s paymentLoading) \<or>
   (MarkFailedButton, d) \<in> set (action_buttons s paymentLoading) \<Longrightarrow>
     map_option bd_status (ub_bookingDetails s) = Some (js ''confirmed'') \<and>
     map_option bd_paymentStatus (ub_bookingDetails s) = Some (js ''pending'')"
  by (cases "ub_bookingDetails s") (auto simp: action_buttons_def split: if_splits)

lemma click_confirm:
  assumes "c \<in> set (h_calls (click fetch now uuid b s paymentLoading))"
    and "is_confirm_request c"
  shows "map_option bd_status (ub_bookingDetails s) = Some (js ''pending_confirmation'')"
proof (cases "(b, False) \<in> set (action_buttons s paymentLoading)")
  case False
  with assms(1) show ?thesis by (simp add: click_def unhandled_def)
next
  case True
  show ?thesis
  proof (cases b)
    case ConfirmBookingButton
    with True show ?thesis by (simp add: action_buttons_confirm)
  next
    case MarkPaidButton
    with True assms(1) have "c \<in> set (h_calls (handlePaymentUpdate fetch now uuid completed_mark s))"
      by (simp add: click_def)
    with assms(2) show ?thesis using handlePaymentUpdate_request by blast
  next
    case MarkFailedButton
    with True assms(1) have "c \<in> set (h_calls (handlePaymentUpdate fetch now uuid failed_mark s))"
      by (simp add: click_def)
    with assms(2) show ?thesis using handlePaymentUpdate_request by blast
  qed
qed

lemma click_payment:
  assumes "c \<in> set (h_calls (click fetch now uuid b s paymentLoading))"
    and "is_payment_request c"
  shows "map_option bd_status (ub_bookingDetails s) = Some (js ''confirmed'') \<and>
         map_option bd_paymentStatus (ub_bookingDetails s) = Some (js ''pending'')"
proof (cases "(b, False) \<in> set (action_buttons s paymentLoading)")
  case False
  with assms(1) show ?thesis by (simp add: click_def unhandled_def)
next
  case True
  show ?thesis
  proof (cases b)
    case ConfirmBookingButton
    with True assms(1) have "c \<in> set (h_calls (handleConfirmBooking fetch uuid s))"
      by (simp add: click_def)
    with assms(2) show ?thesis using handleConfirmBooking_guard by blast
  next
    case MarkPaidButton
    with True show ?thesis using action_buttons_payment by blast
  next
    case MarkFailedButton
    with True show ?thesis using action_buttons_payment by blast
  qed
qed

text \<open>
  Claim C1: a status transition moves a booking along the graph pending_confirmation to
  confirmed to completed, with cancelled reachable from pending_confirmation and from
  confirmed, or leaves the status as it is; no transition leaves completed or cancelled;
  a move that is not in the graph fails with InvalidStateTransition; and a failed
  transition leaves the store as it was. In the client, a click on a rendered button
  issues a confirm request only when the displayed status is pending_confirmation, and
  a payment update only when the displayed status is confirmed and the displayed
  paymentStatus is pending; handleConfirmBooking checks the status itself.
\<close>

theorem booking_status_transitions:
  "(getById st i = Some b \<and> fst (transition_status st i target now) = Inr b'
      \<longrightarrow> bk_status b' = target \<and>
          (bk_status b' = bk_status b \<or> status_edge (bk_status b) (bk_status b')) \<and>
          (snd (transition_status st i target now) = st \<or>
           snd (transition_status st i target now) = store_write st b')) \<and>
   (getById st i = Some b \<and> (bk_status b = completed \<or> bk_status b = cancelled)
      \<longrightarrow> transition_status st i target now = (Inl InvalidStateTransition, st)) \<and>
   (getById st i = Some b \<and> \<not> status_edge (bk_status b) target \<and>
    \<not> (bk_status b = confirmed \<and> target = confirmed)
      \<longrightarrow> transition_status st i target now = (Inl InvalidStateTransition, st)) \<and>
   (fst (transition_status st i target now) = Inl e
      \<longrightarrow> snd (transition_status st i target now) = st) \<and>
   (c \<in> set (h_calls (click fetch t uuid button s paymentLoading)) \<and> is_confirm_request c
      \<longrightarrow> map_option bd_status (ub_bookingDetails s) = Some (js ''pending_confirmation'')) \<and>
   (c \<in> set (h_calls (click fetch t uuid button s paymentLoading)) \<and> is_payment_request c
      \<longrightarrow> map_option bd_status (ub_bookingDetails s) = Some (js ''confirmed'') \<and>
          map_option bd_paymentStatus (ub_bookingDetails s) = Some (js ''pending'')) \<and>
   (c \<in> set (h_calls (handleConfirmBooking fetch uuid s))
      \<longrightarrow> is_confirm_request c \<and>
          map_option bd_status (ub_bookingDetails s) = Some (js ''pending_confirmation''))"
proof -
  have 1: "getById st i = Some b \<and> fst (transition_status st i target now) = Inr b'
      \<longrightarrow> bk_status b' = target \<and>
          (bk_status b' = bk_status b \<or> status_edge (bk_status b) (bk_status b')) \<and>
          (snd (transition_status st i target now) = st \<or>
           snd (transition_status st i target now) = store_write st b')"
    using transition_moves_along_graph [of st i b target now b']
      transition_store [of st i b target now b'] by blast
  have 2: "getById st i = Some b \<and> (bk_status b = completed \<or> bk_status b = cancelled)
      \<longrightarrow> transition_status st i target now = (Inl InvalidStateTransition, st)"
  proof
    assume a: "getById st i = Some b \<and> (bk_status b = completed \<or> bk_status b = cancelled)"
    then have "\<not> status_edge (bk_status b) target" by (simp add: status_edge_terminal)
    moreover have "\<not> (bk_status b = confirmed \<and> target = confirmed)" using a by auto
    ultimately show "transition_status st i target now = (Inl InvalidStateTransition, st)"
      using a transition_illegal by blast
  qed
  have 3: "getById st i = Some b \<and> \<not> status_edge (bk_status b) target \<and>
    \<not> (bk_status b = confirmed \<and> target = confirmed)
      \<longrightarrow> transition_status st i target now = (Inl InvalidStateTransition, st)"
    using transition_illegal [of st i b target now] by simp
  have 4: "fst (transition_status st i target now) = Inl e
      \<longrightarrow> snd (transition_status st i target now) = st"
    using transition_failure_unchanged [of st i target now e] by simp
  have 5: "c \<in> set (h_calls (click fetch t uuid button s paymentLoading)) \<and> is_confirm_request c
      \<longrightarrow> map_option bd_status (ub_bookingDetails s) = Some (js ''pending_confirmation'')"
    using click_confirm [of c fetch t uuid button s paymentLoading] by simp
  have 6: "c \<in> set (h_calls (click fetch t uuid button s paymentLoading)) \<and> is_payment_request c
      \<longrightarrow> map_option bd_status (ub_bookingDetails s) = Some (js ''confirmed'') \<and>
          map_option bd_paymentStatus (ub_bookingDetails s) = Some (js ''pending'')"
    using click_payment [of c fetch t uuid button s paymentLoading] by simp
  have 7: "c \<in> set (h_calls (handleConfirmBooking fetch uuid s))
      \<longrightarrow> is_confirm_request c \<and>
          map_option bd_status (ub_bookingDetails s) = Some (js ''pending_confirmation'')"
    using handleConfirmBooking_guard [of c fetch uuid s] by simp
  show ?thesis
    by (rule conjI [OF 1 conjI [OF 2 conjI [OF 3 conjI [OF 4 conjI [OF 5 conjI [OF 6 7]]]]]])
qed

theorem booking_status_transitions_witness:
  "getById [booking_completed] (js ''u1'') = Some booking_completed \<and>
   bk_status booking_completed = completed \<and>
   transition_status [booking_completed] (js ''u1'') confirmed 5
     = (Inl InvalidStateTransition, [booking_completed]) \<and>
   map bk_status (snd (transition_status [booking_pending] (js ''u1'') confirmed 5))
     = [confirmed] \<and>
   map bk_confirmedAt (snd (transition_status [booking_pending] (js ''u1'') confirmed 5))
     = [Some 5] \<and>
   map is_payment_request
     (h_calls (click (fetch_succeeds :: any fetch) 5 (Some (js ''u1'')) MarkPaidButton
        state_confirmed False)) = [True] \<and>
   map_option bd_status (ub_bookingDetails state_confirmed) = Some (js ''confirmed'')"
proof -
  have found: "getById [booking_completed] (js ''u1'') = Some booking_completed"
    by (simp add: getById_def booking_completed_def booking_pending_def)
  have terminal: "bk_status booking_completed = completed"
    by (simp add: booking_completed_def)
  have refused: "transition_status [booking_completed] (js ''u1'') confirmed 5
     = (Inl InvalidStateTransition, [booking_completed])"
    using booking_status_transitions [of "[booking_completed]" "js ''u1''" booking_completed
        confirmed 5] found terminal
    by simp
  have moved: "snd (transition_status [booking_pending] (js ''u1'') confirmed 5)
     = [booking_pending\<lparr>bk_status := confirmed, bk_confirmedAt := Some 5\<rparr>]"
    by (simp add: transition_status_def getById_def store_write_def booking_pending_def Let_def)
  have paid: "map is_payment_request
     (h_calls (click (fetch_succeeds :: any fetch) 5 (Some (js ''u1'')) MarkPaidButton
        state_confirmed False)) = [True]"
    by (simp add: click_def action_buttons_def state_confirmed_def details_confirmed_def
        truthy_def handlePaymentUpdate_calls is_payment_request_def)
  have shown: "map_option bd_status (ub_bookingDetails state_confirmed) = Some (js ''confirmed'')"
    by (simp add: state_confirmed_def details_confirmed_def)
  show ?thesis using found terminal refused paid shown unfolding moved by simp
qed

subsection \<open>Magic-link preview\<close>

lemma preview_store: "snd (preview frontendBase st token) = st"
  by (simp add: preview_def split: option.splits)

lemma preview_times_store: "preview_times n frontendBase st token = st"
  by (induction n) (simp_all add: preview_store)

lemma previewMagicLink_calls:
  "fst (useMagicLink_previewMagicLink fetch magicLinkId s) =
     [\<lparr>fc_url = apiBaseUrl @ js ''/appt/'' @ magicLinkId @ js ''/preview'',
       fc_init = \<lparr>ri_method = None, ri_body = None,
         ri_headers = Some [(js ''Content-Type'', js ''application/json'')]\<rparr>\<rparr>]"
  by (simp add: useMagicLink_previewMagicLink_def apiService_previewMagicLink_def
      request_as_declared_def request_call_def request_init_def no_options_def Let_def
      split: prod.splits)

lemma previewMagicLink_settle_analytics:
  "um_analytics (previewMagicLink_settle outcome prev) = um_analytics prev"
  by (cases outcome) (simp_all add: previewMagicLink_settle_def)

lemma previewMagicLink_analytics:
  "um_analytics (snd (useMagicLink_previewMagicLink fetch magicLinkId s)) = um_analytics s"
  by (simp add: useMagicLink_previewMagicLink_def previewMagicLink_settle_analytics
      previewMagicLink_start_def split: prod.splits)

text \<open>
  Claim C6: previewing a magic link is a read. The hook makes one request, with no
  method (so fetch sends a GET) and no body, to the preview path of the token and not
  to the path that resolves it; any number of preview calls leaves the store, and with
  it every accessCount, as it was; and on the client the analytics field of the hook
  state is untouched, so only preview, loading and error change.
\<close>

theorem preview_is_a_read:
  "fst (useMagicLink_previewMagicLink fetch magicLinkId s) =
     [\<lparr>fc_url = apiBaseUrl @ js ''/appt/'' @ magicLinkId @ js ''/preview'',
       fc_init = \<lparr>ri_method = None, ri_body = None,
         ri_headers = Some [(js ''Content-Type'', js ''application/json'')]\<rparr>\<rparr>] \<and>
   apiBaseUrl @ js ''/appt/'' @ magicLinkId @ js ''/preview''
     \<noteq> apiBaseUrl @ js ''/appt/'' @ magicLinkId \<and>
   snd (preview frontendBase st token) = st \<and>
   preview_times n frontendBase st token = st \<and>
   map bk_accessCount (preview_times n frontendBase st token) = map bk_accessCount st \<and>
   um_analytics (previewMagicLink_settle outcome (previewMagicLink_start s)) = um_analytics s \<and>
   um_analytics (snd (useMagicLink_previewMagicLink fetch magicLinkId s)) = um_analytics s"
  by (simp add: previewMagicLink_calls preview_store preview_times_store
      previewMagicLink_settle_analytics previewMagicLink_analytics previewMagicLink_start_def)

theorem preview_is_a_read_witness:
  "map bk_accessCount (preview_times 5 (js ''https://usetextbook.com'') [booking_pending] (js ''tok''))
     = [0] \<and>
   map bk_accessCount (snd (resolve (js ''https://usetextbook.com'') [booking_pending] (js ''tok'') 7))
     = [1] \<and>
   fst (preview (js ''https://usetextbook.com'') [booking_pending] (js ''tok'')) =
     Inr \<lparr>pv_bookingId = js ''booking_1'',
          pv_redirectTarget = js ''https://usetextbook.com/booking/booking_1?status=pending_confirmation&payment_status=pending&source=magic_link'',
          pv_status = pending_confirmation, pv_bookingSnapshot = booking_pending\<rparr>"
proof -
  have "map bk_accessCount
      (preview_times 5 (js ''https://usetextbook.com'') [booking_pending] (js ''tok''))
        = map bk_accessCount [booking_pending]"
    using preview_is_a_read [of _ _ _ "js ''https://usetextbook.com''" "[booking_pending]"
        "js ''tok''" 5]
    by (rule conjunct1 [OF conjunct2 [OF conjunct2 [OF conjunct2 [OF conjunct2]]]])
  then have 1: "map bk_accessCount
      (preview_times 5 (js ''https://usetextbook.com'') [booking_pending] (js ''tok'')) = [0]"
    by (simp add: booking_pending_def)
  have 2: "map bk_accessCount
      (snd (resolve (js ''https://usetextbook.com'') [booking_pending] (js ''tok'') 7)) = [1]"
    by (simp add: resolve_def getByMagicLink_def store_write_def booking_pending_def Let_def)
  have 3: "fst (preview (js ''https://usetextbook.com'') [booking_pending] (js ''tok'')) =
     Inr \<lparr>pv_bookingId = js ''booking_1'',
          pv_redirectTarget = js ''https://usetextbook.com/booking/booking_1?status=pending_confirmation&payment_status=pending&source=magic_link'',
          pv_status = pending_confirmation, pv_bookingSnapshot = booking_pending\<rparr>"
    by (simp add: preview_def getByMagicLink_def redirect_target_def booking_pending_def js_Cons)
  show ?thesis by (rule conjI [OF 1 conjI [OF 2 3]])
qed

end
